theory Spec2Isabelle
  imports Main "HOL-Library.Multiset"
begin

unbundle bit_operations_syntax

section \<open>Architect command: data model\<close>

text \<open>
  A shallow embedding of \<^verbatim>\<open>packages/angular/cli/models/architect-command.ts\<close>.
  An optional TypeScript string (\<^verbatim>\<open>string | undefined\<close>) is a \<open>string option\<close>;
  JavaScript truthiness of such a value (defined and not the empty string) is \<open>truthy\<close>.
\<close>

definition truthy :: "string option \<Rightarrow> bool" where
  "truthy x = (case x of None \<Rightarrow> False | Some s \<Rightarrow> s \<noteq> [])"

text \<open>\<^verbatim>\<open>x || ''\<close> and \<^verbatim>\<open>if (!x) x = ''\<close> on an optional string.\<close>

definition orEmpty :: "string option \<Rightarrow> string" where
  "orEmpty x = (case x of None \<Rightarrow> [] | Some s \<Rightarrow> s)"

text \<open>An optional string inside a template literal: \<^verbatim>\<open>undefined\<close> prints as such.\<close>

definition interpolate :: "string option \<Rightarrow> string" where
  "interpolate x = (case x of None \<Rightarrow> ''undefined'' | Some s \<Rightarrow> s)"

text \<open>
  \<^verbatim>\<open>s.split(c)\<close> for a one-character separator: the pieces between the separators,
  never an empty array.
\<close>

fun split_on :: "char \<Rightarrow> string \<Rightarrow> string list" where
  "split_on c [] = [[]]"
| "split_on c (x # xs) =
     (if x = c then [] # split_on c xs
      else (case split_on c xs of
              [] \<Rightarrow> [[x]]
            | w # ws \<Rightarrow> (x # w) # ws))"

text \<open>Array destructuring and \<^verbatim>\<open>a[i]\<close>: an index past the end reads \<^verbatim>\<open>undefined\<close>.\<close>

definition nth_opt :: "'a list \<Rightarrow> nat \<Rightarrow> 'a option" where
  "nth_opt xs i = (if i < length xs then Some (xs ! i) else None)"

text \<open>\<^verbatim>\<open>xs.join(sep)\<close>.\<close>

fun join :: "string \<Rightarrow> string list \<Rightarrow> string" where
  "join sep [] = []"
| "join sep [x] = x"
| "join sep (x # y # ys) = x @ sep @ join sep (y # ys)"

text \<open>
  The command options (\<^verbatim>\<open>ArchitectCommandOptions & Arguments\<close>). \<open>leftovers\<close> is the
  entry \<^verbatim>\<open>options['--']\<close>, \<open>helpRequested\<close> the truthiness of \<^verbatim>\<open>options.help\<close>, and \<open>keys\<close>
  lists every key \<^verbatim>\<open>k\<close> for which \<^verbatim>\<open>k in options\<close> holds.
\<close>

record ArchitectCommandOptions =
  project :: "string option"
  configuration :: "string option"
  target :: "string option"
  helpRequested :: bool
  leftovers :: "string list option"
  keys :: "string list"

text \<open>The architect's \<^verbatim>\<open>Target\<close>: \<^verbatim>\<open>{project, target, configuration?}\<close>.\<close>

record Target =
  tproject :: string
  ttarget :: string
  tconfiguration :: "string option"

text \<open>
  The workspace as the command reads it: the ordered map of projects (name and the names
  of its targets), the base path, and \<^verbatim>\<open>extensions['defaultProject']\<close>.
\<close>

record Workspace =
  basePath :: string
  projects :: "(string \<times> string list) list"
  defaultProject :: "string option"

text \<open>The fields of the command instance: \<open>cmd_target\<close> is \<^verbatim>\<open>this.target\<close>.\<close>

record Command =
  workspace :: "Workspace option"
  cmd_target :: "string option"
  multiTarget :: bool
  missingTargetError :: "string option"

section \<open>The target specifier\<close>

text \<open>
  \<^verbatim>\<open>_makeTargetSpecifier\<close> (lines 413-444). The three locals start undefined; in the
  second branch \<^verbatim>\<open>configuration\<close> is still undefined when the template literal reads it.
\<close>

definition makeTargetSpecifier :: "Command \<Rightarrow> ArchitectCommandOptions \<Rightarrow> Target" where
  "makeTargetSpecifier c commandOptions =
     (let (project_v, target_v, configuration_v) =
        (if truthy (target commandOptions) then
           (let parts = split_on CHR '':'' (orEmpty (target commandOptions));
                configuration_v = nth_opt parts 2
            in (nth_opt parts 0, nth_opt parts 1,
                if truthy (configuration commandOptions)
                then configuration commandOptions else configuration_v))
         else
           (let configuration_v = (None :: string option)
            in (project commandOptions, cmd_target c,
                if truthy (configuration commandOptions)
                then Some ((if truthy configuration_v then orEmpty configuration_v @ '','' else [])
                           @ orEmpty (configuration commandOptions))
                else configuration_v)))
      in \<lparr>tproject = orEmpty project_v,
          ttarget = orEmpty target_v,
          tconfiguration = Some (orEmpty configuration_v)\<rparr>)"

section \<open>Collaborators, failures and state\<close>

datatype level = Warn | Error | Fatal

text \<open>
  A validation error of the schema registry: its \<^verbatim>\<open>keyword\<close>, the entry
  \<^verbatim>\<open>params?.additionalProperty\<close> (absent when either part is), and \<open>message\<close> for the rest.
\<close>

record SchemaValidatorError =
  keyword :: string
  additionalProperty :: "string option"
  message :: string

text \<open>
  Everything the code can throw or see thrown: an error whose \<^verbatim>\<open>code\<close> is
  \<^verbatim>\<open>MODULE_NOT_FOUND\<close>, a \<^verbatim>\<open>SchemaValidationException\<close> with its errors, the
  \<^verbatim>\<open>Error\<close> that \<^verbatim>\<open>getProjectNamesByTarget\<close> constructs, the \<^verbatim>\<open>TypeError\<close> of a property
  read on \<^verbatim>\<open>undefined\<close>, and any other failure of a collaborator.
\<close>

datatype 'x exn =
    ModuleNotFound
  | SchemaValidationException "SchemaValidatorError list"
  | JsError string
  | TypeError
  | Other 'x

text \<open>
  Modelled from the spec: the builder description is read only through its option schema,
  and \<^verbatim>\<open>parseJsonSchemaToOptions\<close> (\<^verbatim>\<open>utilities/json-schema.ts\<close>) is not among the sources.
  Section 4.4 gives the contract \<^verbatim>\<open>schemaFor(builderId) -> (optionDefinitions,
  allowsAdditionalProperties)\<close>: \<open>optionDefs\<close> is what \<^verbatim>\<open>parseJsonSchemaToOptions\<close> returns for
  \<^verbatim>\<open>builderDesc.optionSchema\<close>, and \<open>additionalProperties\<close> the truthiness of
  \<^verbatim>\<open>typeof optionSchema === 'object' && optionSchema.additionalProperties\<close>.
\<close>

record 'o BuilderDesc =
  optionDefs :: "'o list"
  additionalProperties :: bool

text \<open>
  The collaborators, as parameters. \<open>'o\<close> is an option definition (\<^verbatim>\<open>Option\<close>), \<open>'a\<close> the
  parsed arguments without their \<^verbatim>\<open>'--'\<close> entry, compared by equality where the code
  compares their \<^verbatim>\<open>JSON.stringify\<close>; \<open>'x\<close> the other failures; \<open>'w\<close> the world the builder
  runtime acts on.
  \<^item> \<open>parseArguments\<close> (\<^verbatim>\<open>models/parser.ts\<close>, not among the sources) returns the structured
    options and the \<^verbatim>\<open>'--'\<close> entry; it is total (section 4.5: unknown tokens become
    leftovers, never errors). \<open>parseArgumentsLog\<close> is what it writes to a logger handed to it.
  \<^item> \<open>scheduleTarget\<close> stands for \<^verbatim>\<open>scheduleTarget\<close>, \<^verbatim>\<open>run.output.toPromise()\<close> and
    \<^verbatim>\<open>run.stop()\<close> together: the pair \<^verbatim>\<open>(success, error)\<close> or a failure, and the new world.
  \<^item> \<open>userAnalytics\<close> is the truthiness of \<^verbatim>\<open>o.userAnalytics\<close>, \<open>dropUserAnalytics\<close> the
    assignment \<^verbatim>\<open>o.userAnalytics = undefined\<close>.
  \<^item> \<open>oneLine\<close> is the template tag \<^verbatim>\<open>tags.oneLine\<close>, \<open>validationMessage\<close> the
    \<^verbatim>\<open>message\<close> of a new \<^verbatim>\<open>SchemaValidationException\<close>.
  \<^verbatim>\<open>reportAnalytics\<close> and \<^verbatim>\<open>getOptionsForTarget\<close> leave no trace in the state below and are
  not modelled.
\<close>

record ('o, 'a, 'x, 'w) Host =
  getBuilderNameForTarget :: "Target \<Rightarrow> 'x exn + string"
  resolveBuilder :: "string \<Rightarrow> 'x exn + 'o BuilderDesc"
  parseArguments :: "string list \<Rightarrow> 'o list \<Rightarrow> 'a \<times> string list option"
  parseArgumentsLog :: "string list \<Rightarrow> 'o list \<Rightarrow> (level \<times> string) list"
  scheduleTarget ::
    "Target \<Rightarrow> 'a \<times> string list option \<Rightarrow> 'w \<Rightarrow> ('x exn + bool \<times> string option) \<times> 'w"
  existsSync :: "string \<Rightarrow> bool"
  path_resolve :: "string \<Rightarrow> string \<Rightarrow> string"
  getPackageManager :: "string \<Rightarrow> string"
  isPackageNameSafeForAnalytics :: "string \<Rightarrow> bool"
  userAnalytics :: "'o \<Rightarrow> bool"
  dropUserAnalytics :: "'o \<Rightarrow> 'o"
  oneLine :: "string \<Rightarrow> string"
  validationMessage :: "SchemaValidatorError list \<Rightarrow> string"

text \<open>
  What the command mutates besides its options: the logger's output, the option list
  \<^verbatim>\<open>this.description.options\<close>, and the world of the builder runtime.
\<close>

record ('o, 'w) State =
  logger :: "(level \<times> string) list"
  descriptionOptions :: "'o list"
  world :: 'w

definition logTo :: "level \<Rightarrow> string \<Rightarrow> ('o, 'w) State \<Rightarrow> ('o, 'w) State" where
  "logTo lv msg s = s\<lparr>logger := logger s @ [(lv, msg)]\<rparr>"

text \<open>How a block of the method ends: it throws, returns from the method, or goes on.\<close>

datatype ('x, 'r, 'v) flow = Throw "'x exn" | Return 'r | Next 'v

text \<open>\<^verbatim>\<open>'${x}'\<close> in a template literal.\<close>

definition quoted :: "string \<Rightarrow> string" where
  "quoted x = [CHR 0x27] @ x @ [CHR 0x27]"

text \<open>
  A JavaScript \<^verbatim>\<open>Set\<close> of strings is the list of its members in insertion order:
  \<^verbatim>\<open>add\<close>, \<^verbatim>\<open>new Set(xs)\<close>; \<^verbatim>\<open>has\<close> is membership and \<^verbatim>\<open>size\<close> the length.
\<close>

definition setAdd :: "'k list \<Rightarrow> 'k \<Rightarrow> 'k list" where
  "setAdd s x = (if x \<in> set s then s else s @ [x])"

definition newSet :: "'k list \<Rightarrow> 'k list" where
  "newSet xs = foldl setAdd [] xs"

section \<open>Missing targets and missing packages\<close>

text \<open>\<^verbatim>\<open>onMissingTarget\<close> (lines 42-56).\<close>

definition onMissingTarget ::
  "Command \<Rightarrow> string option \<Rightarrow> ('o, 'w) State \<Rightarrow> int \<times> ('o, 'w) State" where
  "onMissingTarget c projectName s =
     (if truthy (missingTargetError c) then (1, logTo Fatal (orEmpty (missingTargetError c)) s)
      else if truthy projectName then
        (1, logTo Fatal (''Project '' @ quoted (orEmpty projectName) @ '' does not support the ''
                         @ quoted (interpolate (cmd_target c)) @ '' target.'') s)
      else
        (1, logTo Fatal (''No projects support the '' @ quoted (interpolate (cmd_target c))
                         @ '' target.'') s))"

text \<open>\<^verbatim>\<open>warnOnMissingNodeModules\<close> (lines 248-278).\<close>

definition warnOnMissingNodeModules ::
  "('o, 'a, 'x, 'w) Host \<Rightarrow> string \<Rightarrow> ('o, 'w) State \<Rightarrow> ('o, 'w) State" where
  "warnOnMissingNodeModules h bp s =
     (if existsSync h (path_resolve h bp ''node_modules'') then s
      else if existsSync h (path_resolve h bp ''.pnp.js'')
              \<or> existsSync h (path_resolve h bp ''.pnp.cjs'')
              \<or> existsSync h (path_resolve h bp ''.pnp.mjs'') then s
      else
        (let packageManager = getPackageManager h bp;
             installSuggestion = ''Try installing with '' @
               (if packageManager = ''npm'' then quoted ''npm install''
                else if packageManager = ''yarn'' then quoted ''yarn''
                else ''the project's package manager'')
         in logTo Warn (''Node packages may not be installed. '' @ installSuggestion @ ''.'') s))"

text \<open>
  The catch block shared by the three calls of \<^verbatim>\<open>resolveBuilder\<close> (lines 132-140, 223-231,
  292-301): the missing package is reported and the method returns 1, any other failure is
  thrown again.
\<close>

definition builderNotResolved ::
  "('o, 'a, 'x, 'w) Host \<Rightarrow> string \<Rightarrow> string \<Rightarrow> 'x exn \<Rightarrow> ('o, 'w) State
   \<Rightarrow> ('x exn + int) \<times> ('o, 'w) State" where
  "builderNotResolved h bp builderName e s =
     (case e of
        ModuleNotFound \<Rightarrow>
          (Inr 1, logTo Fatal (''Could not find the '' @ quoted builderName
                               @ '' builder's node package.'')
                    (warnOnMissingNodeModules h bp s))
      | _ \<Rightarrow> (Inl e, s))"

section \<open>Disambiguation of the project\<close>

text \<open>The projects that declare the target, in the workspace's order (lines 100-105, 385-391).\<close>

definition projectNamesWithTarget :: "Workspace \<Rightarrow> string \<Rightarrow> string list" where
  "projectNamesWithTarget ws targetName =
     map fst (filter (\<lambda>(name, targets). targetName \<in> set targets) (projects ws))"

text \<open>
  The loop over the candidates (lines 119-153). Its variables are \<^verbatim>\<open>builderNames\<close>,
  \<^verbatim>\<open>leftoverMap\<close> (an association list: the newest entry of a key is the one \<^verbatim>\<open>get\<close> finds)
  and \<^verbatim>\<open>potentialProjectNames\<close>.
\<close>

fun disambiguationLoop ::
  "('o, 'a, 'x, 'w) Host \<Rightarrow> string \<Rightarrow> string \<Rightarrow> bool \<Rightarrow> string list \<Rightarrow> string list
   \<Rightarrow> string list \<times> (string \<times> 'o list \<times> 'a \<times> string list option) list \<times> string list
   \<Rightarrow> ('o, 'w) State
   \<Rightarrow> ('x, int, string list \<times> (string \<times> 'o list \<times> 'a \<times> string list option) list
               \<times> string list) flow \<times> ('o, 'w) State" where
  "disambiguationLoop h bp tgt multi commandLeftovers [] vars s = (Next vars, s)"
| "disambiguationLoop h bp tgt multi commandLeftovers (name # names)
       (builderNames, leftoverMap, potentialProjectNames) s =
     (case getBuilderNameForTarget h
             \<lparr>tproject = name, ttarget = tgt, tconfiguration = None\<rparr> of
        Inl e \<Rightarrow> (Throw e, s)
      | Inr builderName \<Rightarrow>
          (case resolveBuilder h builderName of
             Inl e \<Rightarrow>
               (case builderNotResolved h bp builderName e s of
                  (Inl e', s') \<Rightarrow> (Throw e', s')
                | (Inr r, s') \<Rightarrow> (Return r, s'))
           | Inr builderDesc \<Rightarrow>
               (let parsedOptions = parseArguments h commandLeftovers (optionDefs builderDesc);
                    builderLeftovers = (case snd parsedOptions of None \<Rightarrow> [] | Some l \<Rightarrow> l)
                in disambiguationLoop h bp tgt multi commandLeftovers names
                     (if multi then setAdd builderNames builderName else builderNames,
                      (name, optionDefs builderDesc, parsedOptions) # leftoverMap,
                      newSet (filter (\<lambda>x. x \<in> set potentialProjectNames) builderLeftovers))
                     s)))"

text \<open>\<^verbatim>\<open>xs.indexOf(x, from)\<close>, with \<open>None\<close> for the result -1.\<close>

definition indexOf :: "'k list \<Rightarrow> 'k \<Rightarrow> nat \<Rightarrow> nat option" where
  "indexOf xs x from = List.find (\<lambda>j. xs ! j = x) [from ..< length xs]"

text \<open>
  The \<^verbatim>\<open>while\<close> loop that collects the locations (lines 161-169); \<open>i\<close> is its variable, and
  the call from the method starts it at 0, so that the first search starts at index 1.
\<close>

function locationsFrom :: "'k list \<Rightarrow> 'k \<Rightarrow> nat \<Rightarrow> nat list" where
  "locationsFrom xs x i =
     (if i < length xs then
        (case indexOf xs x (i + 1) of
           None \<Rightarrow> []
         | Some j \<Rightarrow> j # locationsFrom xs x j)
      else [])"
  by pat_completeness auto
termination
  by (relation "measure (\<lambda>(xs, x, i). length xs - i)") (auto simp: indexOf_def find_Some_iff)

declare locationsFrom.simps [simp del]

definition locations :: "'k list \<Rightarrow> 'k \<Rightarrow> nat list" where
  "locations commandLeftovers projectName = locationsFrom commandLeftovers projectName 0"

text \<open>\<^verbatim>\<open>xs.splice(location, 1)\<close> on a copy.\<close>

definition splice1 :: "nat \<Rightarrow> 'k list \<Rightarrow> 'k list" where
  "splice1 location xs = take location xs @ drop (Suc location) xs"

text \<open>
  The \<^verbatim>\<open>for\<close> loop over the locations (lines 171-180): the first trial list whose parse,
  without its \<^verbatim>\<open>'--'\<close> entry, equals the candidate's own.
\<close>

fun firstStableRemoval ::
  "('o, 'a, 'x, 'w) Host \<Rightarrow> 'o list \<Rightarrow> 'a \<Rightarrow> string list \<Rightarrow> nat list \<Rightarrow> string list option" where
  "firstStableRemoval h defs parsed commandLeftovers [] = None"
| "firstStableRemoval h defs parsed commandLeftovers (location # rest) =
     (let tempLeftovers = splice1 location commandLeftovers;
          tempArgs = fst (parseArguments h tempLeftovers defs)
      in if parsed = tempArgs then Some tempLeftovers
         else firstStableRemoval h defs parsed commandLeftovers rest)"

text \<open>Lines 158-181: the options after the project name has been looked for.\<close>

definition removeProjectName ::
  "('o, 'a, 'x, 'w) Host \<Rightarrow> string list
   \<Rightarrow> (string \<times> 'o list \<times> 'a \<times> string list option) list \<Rightarrow> string
   \<Rightarrow> ArchitectCommandOptions \<Rightarrow> ArchitectCommandOptions" where
  "removeProjectName h commandLeftovers leftoverMap projectName options =
     (case map_of leftoverMap projectName of
        None \<Rightarrow> options
      | Some (defs, parsedOptions) \<Rightarrow>
          (case firstStableRemoval h defs (fst parsedOptions) commandLeftovers
                  (locations commandLeftovers projectName) of
             None \<Rightarrow> options
           | Some tempLeftovers \<Rightarrow> options\<lparr>leftovers := Some tempLeftovers\<rparr>))"

definition nl :: string where
  "nl = [CHR 0x0A]"

text \<open>The message of lines 185-189, before \<^verbatim>\<open>tags.oneLine\<close> is applied to it.\<close>

definition differentBuildersText :: "string \<Rightarrow> string list \<Rightarrow> string list \<Rightarrow> string" where
  "differentBuildersText tgt targetProjectNames builderNames =
     nl @ ''          Architect commands with command line overrides cannot target different builders. The''
     @ nl @ ''          '' @ quoted tgt @ '' target would run on projects ''
     @ join '','' targetProjectNames @ '' which have the''
     @ nl @ ''          following builders: '' @ (nl @ ''  '' @ join (nl @ ''  '') builderNames)
     @ nl @ ''        ''"

text \<open>
  The block of lines 115-193, entered with a falsy \<^verbatim>\<open>projectName\<close> and a non-empty
  \<^verbatim>\<open>commandLeftovers\<close>: it returns from the method, throws, or leaves the project name and
  the options for the rest of the method.
\<close>

definition disambiguate ::
  "('o, 'a, 'x, 'w) Host \<Rightarrow> Command \<Rightarrow> Workspace \<Rightarrow> string \<Rightarrow> string list \<Rightarrow> string list
   \<Rightarrow> ArchitectCommandOptions \<Rightarrow> ('o, 'w) State
   \<Rightarrow> ('x, int, string option \<times> ArchitectCommandOptions) flow \<times> ('o, 'w) State" where
  "disambiguate h c ws tgt targetProjectNames commandLeftovers options s =
     (case disambiguationLoop h (basePath ws) tgt (multiTarget c) commandLeftovers
             targetProjectNames ([], [], newSet targetProjectNames) s of
        (Throw e, s') \<Rightarrow> (Throw e, s')
      | (Return r, s') \<Rightarrow> (Return r, s')
      | (Next (builderNames, leftoverMap, potentialProjectNames), s') \<Rightarrow>
          (let (projectName, options') =
                 (case potentialProjectNames of
                    [p] \<Rightarrow> (Some p, removeProjectName h commandLeftovers leftoverMap p options)
                  | _ \<Rightarrow> (project options, options))
           in if \<not> truthy projectName \<and> multiTarget c \<and> length builderNames > 1 then
                (Return 1,
                 logTo Fatal (oneLine h (differentBuildersText tgt targetProjectNames builderNames)) s')
              else (Next (projectName, options'), s')))"

text \<open>Lines 115-193 with their guard.\<close>

definition resolveProject ::
  "('o, 'a, 'x, 'w) Host \<Rightarrow> Command \<Rightarrow> Workspace \<Rightarrow> string \<Rightarrow> string list
   \<Rightarrow> ArchitectCommandOptions \<Rightarrow> ('o, 'w) State
   \<Rightarrow> ('x, int, string option \<times> ArchitectCommandOptions) flow \<times> ('o, 'w) State" where
  "resolveProject h c ws tgt targetProjectNames options s =
     (case leftovers options of
        Some commandLeftovers \<Rightarrow>
          if \<not> truthy (project options) \<and> length commandLeftovers > 0
          then disambiguate h c ws tgt targetProjectNames commandLeftovers options s
          else (Next (project options, options), s)
      | None \<Rightarrow> (Next (project options, options), s))"

section \<open>Initialisation\<close>

text \<open>
  The end of \<^verbatim>\<open>initialize\<close> (lines 213-246), from the assignment \<^verbatim>\<open>options.project =
  projectName\<close> on. The result of the method is \<open>None\<close> where it returns nothing.
\<close>

definition finishInitialize ::
  "('o, 'a, 'x, 'w) Host \<Rightarrow> Workspace \<Rightarrow> string \<Rightarrow> string list \<Rightarrow> string option
   \<Rightarrow> ArchitectCommandOptions \<Rightarrow> ('o, 'w) State
   \<Rightarrow> ('x exn + int option) \<times> ArchitectCommandOptions \<times> ('o, 'w) State" where
  "finishInitialize h ws tgt targetProjectNames projectName options s =
     (let options' = options\<lparr>project := projectName, keys := setAdd (keys options) ''project''\<rparr> in
      case getBuilderNameForTarget h
             \<lparr>tproject = (if truthy projectName then orEmpty projectName
                          else if length targetProjectNames > 0 then targetProjectNames ! 0
                          else []),
              ttarget = tgt, tconfiguration = None\<rparr> of
        Inl e \<Rightarrow> (Inl e, options', s)
      | Inr builderConf \<Rightarrow>
          (case resolveBuilder h builderConf of
             Inl e \<Rightarrow>
               (case builderNotResolved h (basePath ws) builderConf e s of
                  (Inl e', s') \<Rightarrow> (Inl e', options', s')
                | (Inr r, s') \<Rightarrow> (Inr (Some r), options', s'))
           | Inr builderDesc \<Rightarrow>
               (Inr None, options',
                s\<lparr>descriptionOptions :=
                     map (\<lambda>opt. if userAnalytics h opt \<and> \<not> isPackageNameSafeForAnalytics h builderConf
                                 then dropUserAnalytics h opt else opt)
                       (descriptionOptions s @ optionDefs builderDesc)\<rparr>)))"

text \<open>Lines 195-211: the project of a command that is not multi-target.\<close>

definition chooseProject ::
  "('o, 'a, 'x, 'w) Host \<Rightarrow> Command \<Rightarrow> Workspace \<Rightarrow> string \<Rightarrow> string list \<Rightarrow> string option
   \<Rightarrow> ArchitectCommandOptions \<Rightarrow> ('o, 'w) State
   \<Rightarrow> ('x exn + int option) \<times> ArchitectCommandOptions \<times> ('o, 'w) State" where
  "chooseProject h c ws tgt targetProjectNames projectName options s =
     (if \<not> truthy projectName \<and> \<not> multiTarget c then
        (let defaultProjectName = defaultProject ws in
         if length targetProjectNames = 1 then
           finishInitialize h ws tgt targetProjectNames (Some (targetProjectNames ! 0)) options s
         else if truthy defaultProjectName
                 \<and> orEmpty defaultProjectName \<in> set targetProjectNames then
           finishInitialize h ws tgt targetProjectNames defaultProjectName options s
         else if helpRequested options then (Inr None, options, s)
         else
           (Inr (Some 1), options,
            logTo Fatal (if truthy (missingTargetError c) then orEmpty (missingTargetError c)
                         else ''Cannot determine project or target for command.'') s))
      else finishInitialize h ws tgt targetProjectNames projectName options s)"

text \<open>
  \<^verbatim>\<open>initialize\<close> (lines 59-246). The registry and the architect host it creates first are
  the collaborators \<open>h\<close>. It returns the result of the method (or what it throws), the
  options object, which it mutates, and the state.
\<close>

definition initialize ::
  "('o, 'a, 'x, 'w) Host \<Rightarrow> Command \<Rightarrow> ArchitectCommandOptions \<Rightarrow> ('o, 'w) State
   \<Rightarrow> ('x exn + int option) \<times> ArchitectCommandOptions \<times> ('o, 'w) State" where
  "initialize h c options s =
     (case workspace c of
        None \<Rightarrow> (Inr (Some 1), options, logTo Fatal ''A workspace is required for this command.'' s)
      | Some ws \<Rightarrow>
          if \<not> truthy (cmd_target c) then
            (if helpRequested options then (Inr None, options, s)
             else
               (let specifier = makeTargetSpecifier c options in
                if tproject specifier = [] \<or> ttarget specifier = [] then
                  (Inr (Some 1), options,
                   logTo Fatal ''Cannot determine project or target for command.'' s)
                else (Inr None, options, s)))
          else
            (let tgt = orEmpty (cmd_target c);
                 projectName = project options
             in if truthy projectName \<and> orEmpty projectName \<notin> fst ` set (projects ws) then
                  (Inr (Some 1), options,
                   logTo Fatal (''Project '' @ quoted (orEmpty projectName) @ '' does not exist.'') s)
                else
                  (let targetProjectNames = projectNamesWithTarget ws tgt in
                   if truthy projectName \<and> orEmpty projectName \<notin> set targetProjectNames then
                     (case onMissingTarget c projectName s of (r, s') \<Rightarrow> (Inr (Some r), options, s'))
                   else if length targetProjectNames = 0 then
                     (case onMissingTarget c None s of (r, s') \<Rightarrow> (Inr (Some r), options, s'))
                   else
                     (case resolveProject h c ws tgt targetProjectNames options s of
                        (Throw e, s') \<Rightarrow> (Inl e, options, s')
                      | (Return r, s') \<Rightarrow> (Inr (Some r), options, s')
                      | (Next (projectName', options'), s') \<Rightarrow>
                          chooseProject h c ws tgt targetProjectNames projectName' options' s'))))"

section \<open>Running the target\<close>

text \<open>
  \<^verbatim>\<open>runSingleTarget\<close> (lines 284-337). \<^verbatim>\<open>this.workspace!.basePath\<close> is read only in the catch
  block, where a missing workspace is a \<^verbatim>\<open>TypeError\<close>.
\<close>

definition unknownOption :: "string \<Rightarrow> level \<times> string" where
  "unknownOption additional =
     (Fatal, ''Unknown option: '' @ quoted (case split_on CHR ''='' additional of
                                              [] \<Rightarrow> [] | w # ws \<Rightarrow> w))"

definition runSingleTarget ::
  "('o, 'a, 'x, 'w) Host \<Rightarrow> Command \<Rightarrow> Target \<Rightarrow> string list \<Rightarrow> ('o, 'w) State
   \<Rightarrow> ('x exn + int) \<times> ('o, 'w) State" where
  "runSingleTarget h c tg targetOptions s =
     (case getBuilderNameForTarget h tg of
        Inl e \<Rightarrow> (Inl e, s)
      | Inr builderConf \<Rightarrow>
          (case resolveBuilder h builderConf of
             Inl e \<Rightarrow>
               (case e of
                  ModuleNotFound \<Rightarrow>
                    (case workspace c of
                       None \<Rightarrow> (Inl TypeError, s)
                     | Some ws \<Rightarrow> builderNotResolved h (basePath ws) builderConf e s)
                | _ \<Rightarrow> (Inl e, s))
           | Inr builderDesc \<Rightarrow>
               (let targetOptionArray = optionDefs builderDesc;
                    overrides = parseArguments h targetOptions targetOptionArray;
                    s1 = s\<lparr>logger := logger s @ parseArgumentsLog h targetOptions targetOptionArray\<rparr>;
                    allowAdditionalProperties = additionalProperties builderDesc
                in case snd overrides of
                     Some additionals \<Rightarrow>
                       if \<not> allowAdditionalProperties then
                         (Inr 1, s1\<lparr>logger := logger s1 @ map unknownOption additionals\<rparr>)
                       else
                         (case scheduleTarget h tg overrides (world s1) of
                            (Inl e, w') \<Rightarrow> (Inl e, s1\<lparr>world := w'\<rparr>)
                          | (Inr (success, error), w') \<Rightarrow>
                              (Inr (if success then 0 else 1),
                               (if truthy error then logTo Error (orEmpty error) else id)
                                 (s1\<lparr>world := w'\<rparr>)))
                   | None \<Rightarrow>
                       (case scheduleTarget h tg overrides (world s1) of
                          (Inl e, w') \<Rightarrow> (Inl e, s1\<lparr>world := w'\<rparr>)
                        | (Inr (success, error), w') \<Rightarrow>
                            (Inr (if success then 0 else 1),
                             (if truthy error then logTo Error (orEmpty error) else id)
                               (s1\<lparr>world := w'\<rparr>))))))"

text \<open>\<^verbatim>\<open>getProjectNamesByTarget\<close> (lines 384-411).\<close>

definition getProjectNamesByTarget :: "Command \<Rightarrow> string \<Rightarrow> 'x exn + string list" where
  "getProjectNamesByTarget c targetName =
     (case workspace c of
        None \<Rightarrow> Inl TypeError
      | Some ws \<Rightarrow>
          (let allProjectsForTargetName = projectNamesWithTarget ws targetName in
           if multiTarget c then Inr allProjectsForTargetName
           else
             (let maybeDefaultProject = defaultProject ws in
              if truthy maybeDefaultProject
                 \<and> orEmpty maybeDefaultProject \<in> set allProjectsForTargetName then
                Inr [orEmpty maybeDefaultProject]
              else if length allProjectsForTargetName = 1 then Inr allProjectsForTargetName
              else Inl (JsError (''Could not determine a single project for the ''
                                 @ quoted targetName @ '' target.'')))))"

text \<open>
  The \<^verbatim>\<open>for\<close> loop of lines 349-352: \<open>result\<close> is its accumulator, and a run that throws
  ends the loop.
\<close>

fun runEachProject ::
  "('o, 'a, 'x, 'w) Host \<Rightarrow> Command \<Rightarrow> Target \<Rightarrow> string list \<Rightarrow> string list \<Rightarrow> int
   \<Rightarrow> ('o, 'w) State \<Rightarrow> ('x exn + int) \<times> ('o, 'w) State" where
  "runEachProject h c targetSpec extra [] result s = (Inr result, s)"
| "runEachProject h c targetSpec extra (p # ps) result s =
     (case runSingleTarget h c (targetSpec\<lparr>tproject := p\<rparr>) extra s of
        (Inl e, s') \<Rightarrow> (Inl e, s')
      | (Inr r, s') \<Rightarrow> runEachProject h c targetSpec extra ps (result OR r) s')"

text \<open>The \<^verbatim>\<open>try\<close> block of \<^verbatim>\<open>runArchitectTarget\<close> (lines 345-357).\<close>

definition runTargets ::
  "('o, 'a, 'x, 'w) Host \<Rightarrow> Command \<Rightarrow> ArchitectCommandOptions \<Rightarrow> ('o, 'w) State
   \<Rightarrow> ('x exn + int) \<times> ('o, 'w) State" where
  "runTargets h c options s =
     (let extra = (case leftovers options of None \<Rightarrow> [] | Some l \<Rightarrow> l);
          targetSpec = makeTargetSpecifier c options
      in if tproject targetSpec = [] \<and> truthy (cmd_target c) then
           (case getProjectNamesByTarget c (orEmpty (cmd_target c)) of
              Inl e \<Rightarrow> (Inl e, s)
            | Inr names \<Rightarrow> runEachProject h c targetSpec extra names 0 s)
         else runSingleTarget h c targetSpec extra s)"

text \<open>\<^verbatim>\<open>unknownProperty.length === 1 ? '-' : '--'\<close> (line 365).\<close>

definition dashes :: "string \<Rightarrow> string" where
  "dashes unknownProperty = (if length unknownProperty = 1 then ''-'' else ''--'')"

text \<open>
  The loop over the validation errors (lines 361-371), with \<^verbatim>\<open>newErrors\<close> and the state as
  its variables. \<^verbatim>\<open>undefined in options\<close> asks for the key \<^verbatim>\<open>"undefined"\<close>; where that key
  is present, reading \<^verbatim>\<open>length\<close> of the undefined property name is a \<^verbatim>\<open>TypeError\<close>.
\<close>

fun filterSchemaErrors ::
  "ArchitectCommandOptions \<Rightarrow> SchemaValidatorError list \<Rightarrow> SchemaValidatorError list
   \<Rightarrow> ('o, 'w) State \<Rightarrow> ('x exn + SchemaValidatorError list) \<times> ('o, 'w) State" where
  "filterSchemaErrors options [] newErrors s = (Inr newErrors, s)"
| "filterSchemaErrors options (schemaError # rest) newErrors s =
     (if keyword schemaError = ''additionalProperties'' then
        (case additionalProperty schemaError of
           None \<Rightarrow>
             if ''undefined'' \<in> set (keys options) then (Inl TypeError, s)
             else filterSchemaErrors options rest (newErrors @ [schemaError]) s
         | Some unknownProperty \<Rightarrow>
             if unknownProperty \<in> set (keys options) then
               filterSchemaErrors options rest newErrors
                 (logTo Fatal (''Unknown option: ''
                               @ quoted (dashes unknownProperty @ unknownProperty)) s)
             else filterSchemaErrors options rest (newErrors @ [schemaError]) s)
      else filterSchemaErrors options rest (newErrors @ [schemaError]) s)"

text \<open>\<^verbatim>\<open>runArchitectTarget\<close> (lines 339-382) and \<^verbatim>\<open>run\<close> (lines 280-282).\<close>

definition runArchitectTarget ::
  "('o, 'a, 'x, 'w) Host \<Rightarrow> Command \<Rightarrow> ArchitectCommandOptions \<Rightarrow> ('o, 'w) State
   \<Rightarrow> ('x exn + int) \<times> ('o, 'w) State" where
  "runArchitectTarget h c options s =
     (case runTargets h c options s of
        (Inl (SchemaValidationException errors), s') \<Rightarrow>
          (case filterSchemaErrors options errors [] s' of
             (Inl e, s'') \<Rightarrow> (Inl e, s'')
           | (Inr newErrors, s'') \<Rightarrow>
               (Inr 1,
                if length newErrors > 0 then logTo Error (validationMessage h newErrors) s''
                else s''))
      | (Inl e, s') \<Rightarrow> (Inl e, s')
      | (Inr r, s') \<Rightarrow> (Inr r, s'))"

definition run ::
  "('o, 'a, 'x, 'w) Host \<Rightarrow> Command \<Rightarrow> ArchitectCommandOptions \<Rightarrow> ('o, 'w) State
   \<Rightarrow> ('x exn + int) \<times> ('o, 'w) State" where
  "run h c options s = runArchitectTarget h c options s"

section \<open>Collaborators for the scenarios\<close>

text \<open>
  Modelled from the spec: the OverrideParser of section 4.5 (\<^verbatim>\<open>models/parser.ts\<close> is not among
  the sources), for schemas that declare boolean options only, each definition being the
  option's name. A token \<^verbatim>\<open>--name=true\<close> or \<^verbatim>\<open>--name=false\<close> of a declared name binds that
  option; every other token is a leftover, and the \<^verbatim>\<open>'--'\<close> entry is present when there are
  leftovers. The structured options are the bound pairs in the order of the tokens.
\<close>

definition parseFlag :: "string list \<Rightarrow> string \<Rightarrow> (string \<times> bool) option" where
  "parseFlag defs tok =
     (case split_on CHR ''='' tok of
        [k, v] \<Rightarrow>
          if take 2 k = ''--'' \<and> drop 2 k \<in> set defs \<and> (v = ''true'' \<or> v = ''false'')
          then Some (drop 2 k, v = ''true'') else None
      | _ \<Rightarrow> None)"

definition flagParser ::
  "string list \<Rightarrow> string list \<Rightarrow> (string \<times> bool) list \<times> string list option" where
  "flagParser toks defs =
     (let bound = List.map_filter (parseFlag defs) toks;
          rest = filter (\<lambda>tok. parseFlag defs tok = None) toks
      in (bound, if rest = [] then None else Some rest))"

text \<open>
  A host in which every builder is installed and declares \<^verbatim>\<open>--watch\<close> as its one boolean
  option, without additional properties. The world is the list of the runs the builder
  runtime was given: project and overrides. A run succeeds unless its project is \<^verbatim>\<open>B\<close>.
\<close>

type_synonym scenarioWorld = "(string \<times> (string \<times> bool) list \<times> string list option) list"

definition scenarioHost :: "(string, (string \<times> bool) list, unit, scenarioWorld) Host" where
  "scenarioHost =
     \<lparr>getBuilderNameForTarget = (\<lambda>tg. Inr (''builder:'' @ tproject tg)),
      resolveBuilder = (\<lambda>b. Inr \<lparr>optionDefs = [''watch''], additionalProperties = False\<rparr>),
      parseArguments = flagParser,
      parseArgumentsLog = (\<lambda>toks defs. []),
      scheduleTarget = (\<lambda>tg overrides w. (Inr (tproject tg \<noteq> ''B'', None), w @ [(tproject tg, overrides)])),
      existsSync = (\<lambda>p. False),
      path_resolve = (\<lambda>a b. a @ ''/'' @ b),
      getPackageManager = (\<lambda>p. ''npm''),
      isPackageNameSafeForAnalytics = (\<lambda>b. True),
      userAnalytics = (\<lambda>opt. False),
      dropUserAnalytics = (\<lambda>opt. opt),
      oneLine = (\<lambda>t. t),
      validationMessage = (\<lambda>es. join ''; '' (map message es))\<rparr>"

definition emptyState :: "(string, scenarioWorld) State" where
  "emptyState = \<lparr>logger = [], descriptionOptions = [], world = []\<rparr>"

text \<open>The workspace of the scenario: projects \<^verbatim>\<open>app\<close> and \<^verbatim>\<open>lib\<close>, both with a \<^verbatim>\<open>test\<close> target.\<close>

definition appLibWorkspace :: Workspace where
  "appLibWorkspace =
     \<lparr>basePath = ''/ws'',
      projects = [(''app'', [''build'', ''test'']), (''lib'', [''test''])],
      defaultProject = None\<rparr>"

definition testCommand :: Command where
  "testCommand =
     \<lparr>workspace = Some appLibWorkspace, cmd_target = Some ''test'', multiTarget = False,
      missingTargetError = None\<rparr>"

definition optionsWith :: "string list \<Rightarrow> ArchitectCommandOptions" where
  "optionsWith toks =
     \<lparr>project = None, configuration = None, target = None, helpRequested = False,
      leftovers = Some toks, keys = [''--'']\<rparr>"

definition abcWorkspace :: Workspace where
  "abcWorkspace =
     \<lparr>basePath = ''/ws'',
      projects = [(''A'', [''lint'']), (''B'', [''lint'']), (''C'', [''lint''])],
      defaultProject = None\<rparr>"

definition lintCommand :: Command where
  "lintCommand =
     \<lparr>workspace = Some abcWorkspace, cmd_target = Some ''lint'', multiTarget = True,
      missingTargetError = None\<rparr>"

text \<open>The test command in a workspace whose default project is \<^verbatim>\<open>lib\<close>.\<close>

definition defaultLibCommand :: Command where
  "defaultLibCommand =
     testCommand\<lparr>workspace := Some (appLibWorkspace\<lparr>defaultProject := Some ''lib''\<rparr>)\<rparr>"

text \<open>The scenario host, except that resolving the builder of \<^verbatim>\<open>lib\<close> fails with \<open>e\<close>.\<close>

definition unresolvedLibHost ::
  "unit exn \<Rightarrow> (string, (string \<times> bool) list, unit, scenarioWorld) Host" where
  "unresolvedLibHost e =
     scenarioHost\<lparr>resolveBuilder :=
       (\<lambda>b. if b = ''builder:lib'' then Inl e else resolveBuilder scenarioHost b)\<rparr>"

text \<open>
  The scenario host, except that the builder runtime rejects the options of every run with
  four validation errors: the additional properties \<^verbatim>\<open>f\<close>, \<^verbatim>\<open>bar\<close> and \<^verbatim>\<open>foo\<close>, and a missing
  required property.
\<close>

definition rejectingHost :: "(string, (string \<times> bool) list, unit, scenarioWorld) Host" where
  "rejectingHost =
     scenarioHost\<lparr>scheduleTarget :=
       (\<lambda>tg overrides w.
          (Inl (SchemaValidationException
                  [\<lparr>keyword = ''additionalProperties'', additionalProperty = Some ''f'',
                    message = ''must NOT have additional property f''\<rparr>,
                   \<lparr>keyword = ''additionalProperties'', additionalProperty = Some ''bar'',
                    message = ''must NOT have additional property bar''\<rparr>,
                   \<lparr>keyword = ''additionalProperties'', additionalProperty = Some ''foo'',
                    message = ''must NOT have additional property foo''\<rparr>,
                   \<lparr>keyword = ''required'', additionalProperty = None,
                    message = ''must have required property main''\<rparr>]), w))\<rparr>"

section \<open>Notions used to state the properties\<close>

text \<open>
  What the loop of lines 119-153 computes for one candidate, when its builder resolves:
  the builder's name, its option definitions and the parse of the command's leftovers.
\<close>

definition candidateParse ::
  "('o, 'a, 'x, 'w) Host \<Rightarrow> string \<Rightarrow> string list \<Rightarrow> string
   \<Rightarrow> (string \<times> 'o list \<times> 'a \<times> string list option) option" where
  "candidateParse h tgt commandLeftovers name =
     (case getBuilderNameForTarget h \<lparr>tproject = name, ttarget = tgt, tconfiguration = None\<rparr> of
        Inl e \<Rightarrow> None
      | Inr builderName \<Rightarrow>
          (case resolveBuilder h builderName of
             Inl e \<Rightarrow> None
           | Inr builderDesc \<Rightarrow>
               Some (builderName, optionDefs builderDesc,
                     parseArguments h commandLeftovers (optionDefs builderDesc))))"

text \<open>The candidate's \<^verbatim>\<open>builderLeftovers\<close> (line 147).\<close>

definition candidateLeftovers ::
  "('o, 'a, 'x, 'w) Host \<Rightarrow> string \<Rightarrow> string list \<Rightarrow> string \<Rightarrow> string list" where
  "candidateLeftovers h tgt commandLeftovers name =
     (case candidateParse h tgt commandLeftovers name of
        None \<Rightarrow> []
      | Some (builderName, defs, parsedOptions) \<Rightarrow>
          (case snd parsedOptions of None \<Rightarrow> [] | Some l \<Rightarrow> l))"

text \<open>
  The runs of the target on the given projects, one after the other: each run starts in
  the state the run before it ended in, whatever that run returned. Each entry is the
  project, what its run returned or threw, and the state it ended in.
\<close>

fun sequentialRuns ::
  "('o, 'a, 'x, 'w) Host \<Rightarrow> Command \<Rightarrow> Target \<Rightarrow> string list \<Rightarrow> string list \<Rightarrow> ('o, 'w) State
   \<Rightarrow> (string \<times> ('x exn + int) \<times> ('o, 'w) State) list" where
  "sequentialRuns h c targetSpec extra [] s = []"
| "sequentialRuns h c targetSpec extra (p # ps) s =
     (let r = runSingleTarget h c (targetSpec\<lparr>tproject := p\<rparr>) extra s
      in (p, r) # sequentialRuns h c targetSpec extra ps (snd r))"

definition exitCode :: "'x exn + int \<Rightarrow> int option" where
  "exitCode r = (case r of Inl e \<Rightarrow> None | Inr n \<Rightarrow> Some n)"

text \<open>
  A validation error that the catch block of \<^verbatim>\<open>runArchitectTarget\<close> turns into an unknown
  option: its keyword is \<^verbatim>\<open>additionalProperties\<close> and its property is a key of the options.
\<close>

definition rewritten :: "ArchitectCommandOptions \<Rightarrow> SchemaValidatorError \<Rightarrow> bool" where
  "rewritten options schemaError =
     (keyword schemaError = ''additionalProperties'' \<and>
      (case additionalProperty schemaError of
         None \<Rightarrow> False
       | Some unknownProperty \<Rightarrow> unknownProperty \<in> set (keys options)))"

section \<open>The specifier of a command without a target option\<close>

lemma split_on_absent: "c \<notin> set s \<Longrightarrow> split_on c s = [s]"
  by (induction s) auto

text \<open>
  A non-empty target option is split at its colons whether it has one or not: without a
  colon the whole string is the project and the target is empty.
\<close>

lemma specifier_of_target_without_colon:
  "target commandOptions = Some t \<Longrightarrow> t \<noteq> [] \<Longrightarrow> CHR '':'' \<notin> set t \<Longrightarrow>
   makeTargetSpecifier c commandOptions =
     \<lparr>tproject = t, ttarget = [],
      tconfiguration = Some (orEmpty (configuration commandOptions))\<rparr>"
  by (auto simp: makeTargetSpecifier_def truthy_def orEmpty_def nth_opt_def split_on_absent
        Let_def split: option.splits)

text \<open>
  C3, as stated, fails: the target option \<^verbatim>\<open>build\<close> has no colon, and the specifier takes
  its project from it (not from the project option \<^verbatim>\<open>app\<close>) and has an empty target (not
  the command's target \<^verbatim>\<open>test\<close>).
\<close>

theorem C3_counterexample:
  "CHR '':'' \<notin> set ''build'' \<and>
   makeTargetSpecifier
     \<lparr>workspace = None, cmd_target = Some ''test'', multiTarget = False,
      missingTargetError = None\<rparr>
     \<lparr>project = Some ''app'', configuration = Some ''dev'', target = Some ''build'',
      helpRequested = False, leftovers = None, keys = []\<rparr>
   = \<lparr>tproject = ''build'', ttarget = [], tconfiguration = Some ''dev''\<rparr>"
  by (simp add: makeTargetSpecifier_def truthy_def orEmpty_def nth_opt_def)

text \<open>
  C3, amended: for every command-options record whose target option is absent or empty,
  the normalized target specifier takes project and configuration from the discrete
  project and configuration options (an absent one as the empty string) and takes target
  from the command's fixed target name.
\<close>

theorem C3_specifier_without_target_option:
  "\<not> truthy (target commandOptions) \<Longrightarrow>
   makeTargetSpecifier c commandOptions =
     \<lparr>tproject = orEmpty (project commandOptions),
      ttarget = orEmpty (cmd_target c),
      tconfiguration = Some (orEmpty (configuration commandOptions))\<rparr>"
  by (auto simp: makeTargetSpecifier_def truthy_def orEmpty_def split: option.splits)

theorem C3_witness:
  "\<not> truthy (target (optionsWith [])) \<and>
   makeTargetSpecifier testCommand
     ((optionsWith [])\<lparr>project := Some ''app'', configuration := Some ''dev''\<rparr>)
   = \<lparr>tproject = ''app'', ttarget = ''test'', tconfiguration = Some ''dev''\<rparr>"
  using C3_specifier_without_target_option
          [of "(optionsWith [])\<lparr>project := Some ''app'', configuration := Some ''dev''\<rparr>"
              testCommand]
  by (simp add: optionsWith_def testCommand_def truthy_def orEmpty_def)

section \<open>Removing the project name from the leftovers\<close>

lemma indexOf_None_filter:
  "indexOf xs x from = None \<Longrightarrow> filter (\<lambda>j. xs ! j = x) [from ..< length xs] = []"
  by (auto simp: indexOf_def find_None_iff filter_empty_conv)

lemma filter_upt_split:
  assumes "i \<le> j" "j < n" "P j" "\<forall>k. i \<le> k \<and> k < j \<longrightarrow> \<not> P k"
  shows "filter P [i ..< n] = j # filter P [Suc j ..< n]"
proof -
  have "[i ..< n] = [i ..< j] @ j # [Suc j ..< n]"
    using assms(1,2) by (metis le_Suc_ex less_imp_le_nat upt_add_eq_append upt_conv_Cons)
  moreover have "filter P [i ..< j] = []"
    using assms(4) by (auto simp: filter_empty_conv)
  ultimately show ?thesis using assms(3) by simp
qed

lemma indexOf_Some_filter:
  assumes "indexOf xs x from = Some j"
  shows "filter (\<lambda>j. xs ! j = x) [from ..< length xs]
           = j # filter (\<lambda>j. xs ! j = x) [Suc j ..< length xs]"
proof -
  from assms obtain k where k: "k < length [from ..< length xs]"
    "xs ! ([from ..< length xs] ! k) = x" "j = [from ..< length xs] ! k"
    "\<forall>m<k. xs ! ([from ..< length xs] ! m) \<noteq> x"
    by (auto simp: indexOf_def find_Some_iff)
  have j: "j = from + k" "from + k < length xs" using k(1,3) by auto
  have "\<forall>m. from \<le> m \<and> m < j \<longrightarrow> xs ! m \<noteq> x"
  proof (intro allI impI)
    fix m assume m: "from \<le> m \<and> m < j"
    then have "m - from < k" using j by auto
    with k(4) have "xs ! ([from ..< length xs] ! (m - from)) \<noteq> x" by blast
    moreover have "[from ..< length xs] ! (m - from) = m" using m j by auto
    ultimately show "xs ! m \<noteq> x" by simp
  qed
  then show ?thesis
    using filter_upt_split [of "from" j "length xs" "\<lambda>j. xs ! j = x"] j k(2,3) by auto
qed

text \<open>
  The loop started at \<open>i\<close> finds the occurrences after index \<open>i\<close>; started at 0, as the
  method starts it, it finds the occurrences from index 1 on, and never index 0.
\<close>

lemma locationsFrom_filter:
  "locationsFrom xs x i = filter (\<lambda>j. xs ! j = x) [Suc i ..< length xs]"
proof (induction xs x i rule: locationsFrom.induct)
  case (1 xs x i)
  show ?case
  proof (cases "i < length xs")
    case False
    then show ?thesis by (simp add: locationsFrom.simps [of xs x i])
  next
    case True
    show ?thesis
    proof (cases "indexOf xs x (i + 1)")
      case None
      then show ?thesis
        using True indexOf_None_filter [of xs x "i + 1"]
        by (simp add: locationsFrom.simps [of xs x i])
    next
      case (Some j)
      then show ?thesis
        using True "1.IH" [OF True Some] indexOf_Some_filter [of xs x "i + 1" j]
        by (simp add: locationsFrom.simps [of xs x i])
    qed
  qed
qed

lemma locations_filter:
  "locations xs x = filter (\<lambda>j. xs ! j = x) [1 ..< length xs]"
  by (simp add: locations_def locationsFrom_filter)

lemma first_index_not_located: "0 \<notin> set (locations xs x)"
  by (simp add: locations_filter)

lemma locations_first_only: "x \<notin> set (tl xs) \<Longrightarrow> locations xs x = []"
proof -
  assume a: "x \<notin> set (tl xs)"
  have "\<forall>j \<in> set [1 ..< length xs]. xs ! j \<noteq> x"
  proof
    fix j assume "j \<in> set [1 ..< length xs]"
    then have j: "1 \<le> j" "j < length xs" by auto
    then have "xs ! j = tl xs ! (j - 1)" by (cases xs) (auto simp: nth_Cons')
    moreover have "j - 1 < length (tl xs)" using j by auto
    ultimately have "xs ! j \<in> set (tl xs)" by (metis nth_mem)
    with a show "xs ! j \<noteq> x" by auto
  qed
  then show ?thesis by (simp add: locations_filter filter_empty_conv)
qed

lemma firstStableRemoval_None:
  "firstStableRemoval h defs parsed toks locs = None \<longleftrightarrow>
   (\<forall>j \<in> set locs. fst (parseArguments h (splice1 j toks) defs) \<noteq> parsed)"
  by (induction locs) (auto simp: Let_def)

lemma firstStableRemoval_Some:
  "firstStableRemoval h defs parsed toks locs = Some t \<Longrightarrow>
   \<exists>j \<in> set locs. t = splice1 j toks \<and> fst (parseArguments h (splice1 j toks) defs) = parsed"
  by (induction locs) (auto simp: Let_def split: if_splits)

text \<open>
  Whatever the parser: a project name that occurs at index 0 only (or nowhere) is not
  removed.
\<close>

lemma removeProjectName_first_only:
  "p \<notin> set (tl commandLeftovers) \<Longrightarrow>
   removeProjectName h commandLeftovers leftoverMap p options = options"
  by (simp add: removeProjectName_def locations_first_only split: option.splits)

text \<open>
  The parts of the removal that hold for every parser: where no occurrence from index 1 on
  can be removed without changing the parsed options, the options are unchanged; and a
  removal takes out one occurrence of the name, at an index from 1 on.
\<close>

lemma removeProjectName_unstable:
  assumes "\<forall>j defs parsedOptions.
             1 \<le> j \<and> j < length commandLeftovers \<and> commandLeftovers ! j = p
             \<and> map_of leftoverMap p = Some (defs, parsedOptions)
             \<longrightarrow> fst (parseArguments h (splice1 j commandLeftovers) defs) \<noteq> fst parsedOptions"
  shows "removeProjectName h commandLeftovers leftoverMap p options = options"
proof (cases "map_of leftoverMap p")
  case None
  then show ?thesis by (simp add: removeProjectName_def)
next
  case (Some info)
  obtain defs parsedOptions where info: "info = (defs, parsedOptions)" by (cases info)
  from assms Some info
  have "\<forall>j. 1 \<le> j \<and> j < length commandLeftovers \<and> commandLeftovers ! j = p
            \<longrightarrow> fst (parseArguments h (splice1 j commandLeftovers) defs) \<noteq> fst parsedOptions"
    by blast
  then have "firstStableRemoval h defs (fst parsedOptions) commandLeftovers
          (locations commandLeftovers p) = None"
    unfolding firstStableRemoval_None by (simp add: locations_filter)
  then show ?thesis
    using Some info by (simp add: removeProjectName_def)
qed

lemma removeProjectName_cases:
  "removeProjectName h commandLeftovers leftoverMap p options = options \<or>
   (\<exists>j. 1 \<le> j \<and> j < length commandLeftovers \<and> commandLeftovers ! j = p \<and>
        removeProjectName h commandLeftovers leftoverMap p options
          = options\<lparr>leftovers := Some (splice1 j commandLeftovers)\<rparr>)"
  by (auto simp: removeProjectName_def locations_filter split: option.splits
        dest!: firstStableRemoval_Some)

text \<open>
  C1: in the scenario (target \<^verbatim>\<open>test\<close>, candidates \<^verbatim>\<open>app\<close> and \<^verbatim>\<open>lib\<close>, no project option,
  trailing tokens \<^verbatim>\<open>lib\<close> and \<^verbatim>\<open>--watch=false\<close>, both schemas declaring \<^verbatim>\<open>--watch\<close> as boolean)
  the method resolves the project to \<^verbatim>\<open>lib\<close>, but the token \<^verbatim>\<open>lib\<close> is at index 0, where the
  search for its locations never looks: the leftovers stay as they were, and the run that
  follows rejects \<^verbatim>\<open>lib\<close> as an unknown option with exit code 1, without reaching the builder.
\<close>

theorem C1_project_token_kept:
  "initialize scenarioHost testCommand (optionsWith [''lib'', ''--watch=false'']) emptyState =
     (Inr None,
      \<lparr>project = Some ''lib'', configuration = None, target = None, helpRequested = False,
       leftovers = Some [''lib'', ''--watch=false''], keys = [''--'', ''project'']\<rparr>,
      \<lparr>logger = [], descriptionOptions = [''watch''], world = []\<rparr>)
   \<and> run scenarioHost testCommand
       \<lparr>project = Some ''lib'', configuration = None, target = None, helpRequested = False,
        leftovers = Some [''lib'', ''--watch=false''], keys = [''--'', ''project'']\<rparr>
       \<lparr>logger = [], descriptionOptions = [''watch''], world = []\<rparr> =
     (Inr 1,
      \<lparr>logger = [(Fatal, ''Unknown option: '' @ quoted ''lib'')],
       descriptionOptions = [''watch''], world = []\<rparr>)"
  by code_simp

text \<open>
  C2: the occurrence at index 0 is never tried. With the single token \<^verbatim>\<open>lib\<close>, removing it
  leaves the parsed options unchanged, and the leftovers keep it. With the tokens \<^verbatim>\<open>lib\<close>,
  \<^verbatim>\<open>--watch=false\<close>, \<^verbatim>\<open>lib\<close>, removing the first occurrence leaves the parsed options
  unchanged, and the method removes the second occurrence instead.
\<close>

theorem C2_first_occurrence_skipped:
  "leftovers (fst (snd (initialize scenarioHost testCommand (optionsWith [''lib'']) emptyState)))
     = Some [''lib'']
   \<and> fst (flagParser (splice1 0 [''lib'']) [''watch'']) = fst (flagParser [''lib''] [''watch''])
   \<and> leftovers (fst (snd (initialize scenarioHost testCommand
                              (optionsWith [''lib'', ''--watch=false'', ''lib'']) emptyState)))
     = Some [''lib'', ''--watch=false'']
   \<and> fst (flagParser (splice1 0 [''lib'', ''--watch=false'', ''lib'']) [''watch''])
     = fst (flagParser [''lib'', ''--watch=false'', ''lib''] [''watch''])
   \<and> splice1 0 [''lib'', ''--watch=false'', ''lib''] = [''--watch=false'', ''lib'']"
  by code_simp

section \<open>Narrowing the candidates\<close>

lemma set_setAdd: "set (setAdd s x) = insert x (set s)"
  by (auto simp: setAdd_def)

lemma distinct_setAdd: "distinct s \<Longrightarrow> distinct (setAdd s x)"
  by (auto simp: setAdd_def)

lemma foldl_setAdd:
  "set (foldl setAdd s xs) = set s \<union> set xs \<and> (distinct s \<longrightarrow> distinct (foldl setAdd s xs))"
  by (induction xs arbitrary: s) (auto simp: set_setAdd distinct_setAdd)

lemma set_newSet: "set (newSet xs) = set xs"
  by (simp add: newSet_def foldl_setAdd)

text \<open>The size of a set is the length of its list.\<close>

lemma distinct_newSet: "distinct (newSet xs)"
  by (simp add: newSet_def foldl_setAdd)

lemma loop_step_resolved:
  assumes "candidateParse h tgt cl name = Some (b, defs, po)"
  shows "disambiguationLoop h bp tgt multi cl (name # names) (bn, lm, pot) s =
         disambiguationLoop h bp tgt multi cl names
           (if multi then setAdd bn b else bn, (name, defs, po) # lm,
            newSet (filter (\<lambda>x. x \<in> set pot) (candidateLeftovers h tgt cl name))) s"
  using assms
  by (auto simp: candidateParse_def candidateLeftovers_def Let_def split: sum.splits)

text \<open>
  Where every candidate's builder resolves, the loop ends normally, leaves the state as it
  was, and has narrowed the set to the names that are leftovers of every candidate.
\<close>

lemma loop_completes:
  assumes "\<forall>m \<in> set names. candidateParse h tgt cl m \<noteq> None"
  shows "\<exists>bn lm pot.
           disambiguationLoop h bp tgt multi cl names (bn0, lm0, pot0) s = (Next (bn, lm, pot), s)
           \<and> set pot = set pot0 \<inter> (\<Inter>m \<in> set names. set (candidateLeftovers h tgt cl m))"
  using assms
proof (induction names arbitrary: bn0 lm0 pot0)
  case Nil
  then show ?case by simp
next
  case (Cons name names)
  from Cons.prems obtain b defs po where cp: "candidateParse h tgt cl name = Some (b, defs, po)"
    by fastforce
  let ?pot1 = "newSet (filter (\<lambda>x. x \<in> set pot0) (candidateLeftovers h tgt cl name))"
  from Cons.prems have "\<forall>m \<in> set names. candidateParse h tgt cl m \<noteq> None" by simp
  from Cons.IH [OF this, of "if multi then setAdd bn0 b else bn0" "(name, defs, po) # lm0" ?pot1]
  obtain bn lm pot where
    run: "disambiguationLoop h bp tgt multi cl names
            (if multi then setAdd bn0 b else bn0, (name, defs, po) # lm0, ?pot1) s
          = (Next (bn, lm, pot), s)"
    and pot: "set pot = set ?pot1 \<inter> (\<Inter>m \<in> set names. set (candidateLeftovers h tgt cl m))"
    by blast
  have "set ?pot1 = set pot0 \<inter> set (candidateLeftovers h tgt cl name)"
    by (auto simp: set_newSet)
  with pot have
    "set pot = set pot0 \<inter> (\<Inter>m \<in> set (name # names). set (candidateLeftovers h tgt cl m))"
    by auto
  with run show ?case
    by (simp only: loop_step_resolved [OF cp]) blast
qed

lemma builderNotResolved_not_Next:
  "(case builderNotResolved h bp b e s of
      (Inl e', s') \<Rightarrow> (Throw e', s')
    | (Inr r, s') \<Rightarrow> (Return r, s')) \<noteq> (Next v, s'')"
  by (auto simp: builderNotResolved_def split: exn.splits prod.splits sum.splits)

lemma loop_Next_resolved:
  "disambiguationLoop h bp tgt multi cl names vars s = (Next v, s') \<Longrightarrow>
   \<forall>m \<in> set names. candidateParse h tgt cl m \<noteq> None"
proof (induction names arbitrary: vars)
  case Nil
  then show ?case by simp
next
  case (Cons name names)
  obtain bn lm pot where vars: "vars = (bn, lm, pot)" by (cases vars)
  show ?case
  proof (cases "candidateParse h tgt cl name")
    case None
    then have False
      using Cons.prems
      unfolding vars
      by (auto simp: candidateParse_def builderNotResolved_not_Next split: sum.splits)
    then show ?thesis ..
  next
    case (Some t)
    obtain b defs po where t: "t = (b, defs, po)" by (cases t)
    from Cons.prems have "disambiguationLoop h bp tgt multi cl names
           (if multi then setAdd bn b else bn, (name, defs, po) # lm,
            newSet (filter (\<lambda>x. x \<in> set pot) (candidateLeftovers h tgt cl name))) s = (Next v, s')"
      unfolding vars using loop_step_resolved [OF Some [unfolded t]] by metis
    from Cons.IH [OF this] Some t show ?thesis by simp
  qed
qed

text \<open>
  C4: given the leftovers of each candidate, the narrowed set of potential project names
  does not depend on the order in which the candidates are processed: where the loop over
  the candidates ends normally, the loop over any reordering of them ends normally too,
  with the same set, and that set is the initial set intersected with every candidate's
  leftovers.
\<close>

theorem C4_narrowing_order_independent:
  assumes "disambiguationLoop h bp tgt multi cl names (bn0, lm0, pot0) s = (Next (bn, lm, pot), s')"
    and "mset names' = mset names"
  shows "\<exists>bn' lm' pot'.
           disambiguationLoop h bp tgt multi cl names' (bn0, lm0, pot0) s
             = (Next (bn', lm', pot'), s)
           \<and> set pot' = set pot
           \<and> set pot = set pot0 \<inter> (\<Inter>m \<in> set names. set (candidateLeftovers h tgt cl m))"
proof -
  have res: "\<forall>m \<in> set names. candidateParse h tgt cl m \<noteq> None"
    using loop_Next_resolved [OF assms(1)] .
  have sets: "set names' = set names"
    using assms(2) by (metis set_mset_mset)
  from loop_completes [OF res, of bp multi bn0 lm0 pot0 s] assms(1)
  have pot: "set pot = set pot0 \<inter> (\<Inter>m \<in> set names. set (candidateLeftovers h tgt cl m))"
    by auto
  from res sets have "\<forall>m \<in> set names'. candidateParse h tgt cl m \<noteq> None" by simp
  from loop_completes [OF this, of bp multi bn0 lm0 pot0 s] pot sets
  show ?thesis by auto
qed

text \<open>
  C4 in the scenario: processing \<^verbatim>\<open>lib\<close> before \<^verbatim>\<open>app\<close> narrows the candidates to \<^verbatim>\<open>lib\<close>, as
  processing \<^verbatim>\<open>app\<close> before \<^verbatim>\<open>lib\<close> does.
\<close>

theorem C4_witness:
  "\<exists>bn' lm' pot'.
     disambiguationLoop scenarioHost ''/ws'' ''test'' False [''lib'', ''--watch=false'']
       [''lib'', ''app''] ([], [], [''app'', ''lib'']) emptyState
       = (Next (bn', lm', pot'), emptyState)
     \<and> set pot' = {''lib''}"
proof -
  have run: "disambiguationLoop scenarioHost ''/ws'' ''test'' False [''lib'', ''--watch=false'']
               [''app'', ''lib''] ([], [], [''app'', ''lib'']) emptyState
             = (Next ([],
                      [(''lib'', [''watch''], [(''watch'', False)], Some [''lib'']),
                       (''app'', [''watch''], [(''watch'', False)], Some [''lib''])],
                      [''lib'']), emptyState)"
    by code_simp
  have perm: "mset [''lib'', ''app''] = mset [''app'', ''lib'']"
    by (simp add: add.commute)
  from C4_narrowing_order_independent [OF run perm] obtain bn' lm' pot' where
    "disambiguationLoop scenarioHost ''/ws'' ''test'' False [''lib'', ''--watch=false'']
       [''lib'', ''app''] ([], [], [''app'', ''lib'']) emptyState
       = (Next (bn', lm', pot'), emptyState)"
    and "set pot' = set [''lib'']"
    by blast
  then show ?thesis
    by (auto simp del: disambiguationLoop.simps)
qed

section \<open>A builder that does not resolve\<close>

lemma loop_prefix:
  assumes "\<forall>m \<in> set pre. candidateParse h tgt cl m \<noteq> None"
  shows "\<exists>vars'. disambiguationLoop h bp tgt multi cl (pre @ rest) vars s =
                  disambiguationLoop h bp tgt multi cl rest vars' s"
  using assms
proof (induction pre arbitrary: vars)
  case Nil
  show ?case by (rule exI [of _ vars]) simp
next
  case (Cons name pre)
  obtain bn lm pot where vars: "vars = (bn, lm, pot)" by (cases vars)
  from Cons.prems obtain b defs po where cp: "candidateParse h tgt cl name = Some (b, defs, po)"
    by fastforce
  from Cons.prems have "\<forall>m \<in> set pre. candidateParse h tgt cl m \<noteq> None" by simp
  from Cons.IH [OF this] show ?case
    unfolding vars by (simp only: append_Cons loop_step_resolved [OF cp])
qed

lemma loop_fails_at:
  assumes "getBuilderNameForTarget h \<lparr>tproject = name, ttarget = tgt, tconfiguration = None\<rparr>
             = Inr b"
    and "resolveBuilder h b = Inl e"
  shows "disambiguationLoop h bp tgt multi cl (name # names) vars s =
           (if e = ModuleNotFound then
              (Return 1,
               logTo Fatal (''Could not find the '' @ quoted b @ '' builder's node package.'')
                 (warnOnMissingNodeModules h bp s))
            else (Throw e, s))"
  using assms by (cases vars; cases e) (simp_all add: builderNotResolved_def)

text \<open>
  The method up to the choice of the project, for a command with a workspace and a target,
  no project option, and at least one candidate.
\<close>

lemma initialize_resolve:
  assumes "workspace c = Some ws" "truthy (cmd_target c)" "\<not> truthy (project options)"
    and "projectNamesWithTarget ws (orEmpty (cmd_target c)) \<noteq> []"
  shows "initialize h c options s =
           (case resolveProject h c ws (orEmpty (cmd_target c))
                   (projectNamesWithTarget ws (orEmpty (cmd_target c))) options s of
              (Throw e, s') \<Rightarrow> (Inl e, options, s')
            | (Return r, s') \<Rightarrow> (Inr (Some r), options, s')
            | (Next (projectName', options'), s') \<Rightarrow>
                chooseProject h c ws (orEmpty (cmd_target c))
                  (projectNamesWithTarget ws (orEmpty (cmd_target c))) projectName' options' s')"
  using assms by (simp add: initialize_def Let_def)

text \<open>
  C6: during disambiguation (a workspace, a target, no project option, leftovers), let
  \<open>name\<close> be the first candidate whose builder does not resolve, and \<open>e\<close> the failure. If
  \<open>e\<close> is the module-not-found condition, the method warns about missing node modules as
  the installation state asks, logs the fatal message naming the builder and returns 1: the
  candidates after \<open>name\<close> are not looked at, and the options are unchanged. Any other
  failure is thrown as it is, with the options and the state unchanged.
\<close>

theorem C6_missing_builder_aborts:
  assumes "workspace c = Some ws" and "truthy (cmd_target c)" and "\<not> truthy (project options)"
    and "leftovers options = Some commandLeftovers" and "commandLeftovers \<noteq> []"
    and "projectNamesWithTarget ws (orEmpty (cmd_target c)) = pre @ name # post"
    and "\<forall>m \<in> set pre. candidateParse h (orEmpty (cmd_target c)) commandLeftovers m \<noteq> None"
    and "getBuilderNameForTarget h
           \<lparr>tproject = name, ttarget = orEmpty (cmd_target c), tconfiguration = None\<rparr> = Inr b"
    and "resolveBuilder h b = Inl e"
  shows "initialize h c options s =
           (if e = ModuleNotFound then
              (Inr (Some 1), options,
               logTo Fatal (''Could not find the '' @ quoted b @ '' builder's node package.'')
                 (warnOnMissingNodeModules h (basePath ws) s))
            else (Inl e, options, s))"
proof -
  let ?tgt = "orEmpty (cmd_target c)"
  let ?names = "projectNamesWithTarget ws ?tgt"
  let ?out = "if e = ModuleNotFound then
                (Return 1,
                 logTo Fatal (''Could not find the '' @ quoted b @ '' builder's node package.'')
                   (warnOnMissingNodeModules h (basePath ws) s))
              else (Throw e, s)"
  have loop: "disambiguationLoop h (basePath ws) ?tgt (multiTarget c) commandLeftovers ?names
                ([], [], newSet ?names) s = ?out"
  proof -
    from loop_prefix [OF assms(7), of "basePath ws" "multiTarget c" "name # post"
                        "([], [], newSet ?names)" s]
    obtain vars' where
      "disambiguationLoop h (basePath ws) ?tgt (multiTarget c) commandLeftovers
         (pre @ name # post) ([], [], newSet ?names) s =
       disambiguationLoop h (basePath ws) ?tgt (multiTarget c) commandLeftovers
         (name # post) vars' s"
      by blast
    then show ?thesis
      by (simp only: assms(6) loop_fails_at [OF assms(8,9)])
  qed
  have "disambiguate h c ws ?tgt ?names commandLeftovers options s = ?out"
    unfolding disambiguate_def loop by simp
  then have "resolveProject h c ws ?tgt ?names options s = ?out"
    using assms(3,4,5) by (simp add: resolveProject_def)
  moreover have "?names \<noteq> []" using assms(6) by simp
  ultimately show ?thesis
    using initialize_resolve [OF assms(1,2,3), of h s] by simp
qed

text \<open>
  C6 in the scenario, with the builder of \<^verbatim>\<open>lib\<close> failing to resolve: with the
  module-not-found condition the method warns, logs the fatal message and returns 1; with
  another failure it throws that failure.
\<close>

theorem C6_witness:
  "initialize (unresolvedLibHost ModuleNotFound) testCommand (optionsWith [''lib'']) emptyState =
     (Inr (Some 1), optionsWith [''lib''],
      \<lparr>logger = [(Warn, ''Node packages may not be installed. Try installing with ''
                          @ quoted ''npm install'' @ ''.''),
                  (Fatal, ''Could not find the '' @ quoted ''builder:lib''
                          @ '' builder's node package.'')],
       descriptionOptions = [], world = []\<rparr>)
   \<and> initialize (unresolvedLibHost (Other ())) testCommand (optionsWith [''lib'']) emptyState =
     (Inl (Other ()), optionsWith [''lib''], emptyState)"
proof -
  have 1: "workspace testCommand = Some appLibWorkspace" by (simp add: testCommand_def)
  have 2: "truthy (cmd_target testCommand)" by (simp add: testCommand_def truthy_def)
  have 3: "\<not> truthy (project (optionsWith [''lib'']))" by (simp add: optionsWith_def truthy_def)
  have 4: "leftovers (optionsWith [''lib'']) = Some [''lib'']" by (simp add: optionsWith_def)
  have 5: "[''lib''] \<noteq> []" by simp
  have 6: "projectNamesWithTarget appLibWorkspace (orEmpty (cmd_target testCommand))
             = [''app''] @ ''lib'' # []"
    by code_simp
  have 7: "\<forall>m \<in> set [''app''].
             candidateParse (unresolvedLibHost e) (orEmpty (cmd_target testCommand)) [''lib''] m
               \<noteq> None" for e
    by (simp add: candidateParse_def unresolvedLibHost_def scenarioHost_def)
  have 8: "getBuilderNameForTarget (unresolvedLibHost e)
             \<lparr>tproject = ''lib'', ttarget = orEmpty (cmd_target testCommand),
              tconfiguration = None\<rparr>
           = Inr ''builder:lib''" for e
    by (simp add: unresolvedLibHost_def scenarioHost_def)
  have 9: "resolveBuilder (unresolvedLibHost e) ''builder:lib'' = Inl e" for e
    by (simp add: unresolvedLibHost_def)
  have w: "warnOnMissingNodeModules (unresolvedLibHost ModuleNotFound) (basePath appLibWorkspace)
             emptyState
           = \<lparr>logger = [(Warn, ''Node packages may not be installed. Try installing with ''
                                @ quoted ''npm install'' @ ''.'')],
              descriptionOptions = [], world = []\<rparr>"
    by (simp add: warnOnMissingNodeModules_def unresolvedLibHost_def scenarioHost_def logTo_def
          emptyState_def)
  show ?thesis
    using C6_missing_builder_aborts [OF 1 2 3 4 5 6 7 8 9, of ModuleNotFound emptyState]
          C6_missing_builder_aborts [OF 1 2 3 4 5 6 7 8 9, of "Other ()" emptyState]
    by (simp add: w logTo_def)
qed

section \<open>Choosing the project\<close>

text \<open>The end of the method stores the project it was given in the options.\<close>

lemma finishInitialize_project:
  "project (fst (snd (finishInitialize h ws tgt names projectName options s))) = projectName"
  by (simp add: finishInitialize_def Let_def split: sum.splits prod.splits)

lemma finishInitialize_leftovers:
  "leftovers (fst (snd (finishInitialize h ws tgt names projectName options s)))
     = leftovers options"
  by (simp add: finishInitialize_def Let_def split: sum.splits prod.splits)

lemma chooseProject_leftovers:
  "leftovers (fst (snd (chooseProject h c ws tgt names projectName options s)))
     = leftovers options"
  by (simp add: chooseProject_def Let_def finishInitialize_leftovers)

lemma resolveProject_skipped:
  "truthy (project options) \<or> leftovers options = None \<or> leftovers options = Some [] \<Longrightarrow>
   resolveProject h c ws tgt names options s = (Next (project options, options), s)"
  by (auto simp: resolveProject_def split: option.splits)

lemma finishInitialize_parser:
  "finishInitialize (h\<lparr>parseArguments := q\<rparr>) ws tgt names projectName options s =
   finishInitialize h ws tgt names projectName options s"
proof -
  have w: "\<And>bp. warnOnMissingNodeModules (h\<lparr>parseArguments := q\<rparr>) bp s
                = warnOnMissingNodeModules h bp s"
    by (simp add: warnOnMissingNodeModules_def)
  have b: "\<And>bp n e. builderNotResolved (h\<lparr>parseArguments := q\<rparr>) bp n e s
                    = builderNotResolved h bp n e s"
    by (simp add: builderNotResolved_def w split: exn.splits)
  show ?thesis
    by (simp add: finishInitialize_def Let_def b split: sum.splits)
qed

lemma chooseProject_parser:
  "chooseProject (h\<lparr>parseArguments := q\<rparr>) c ws tgt names projectName options s =
   chooseProject h c ws tgt names projectName options s"
  by (simp add: chooseProject_def Let_def finishInitialize_parser)

text \<open>
  C8: for a command that is not multi-target (with a workspace, a target and at least one
  candidate), when the disambiguation block of lines 115-193 has left the project name
  falsy: if the workspace's default project is among the candidates, the method goes on
  with it as the project; otherwise, if there is exactly one candidate, with that
  candidate; otherwise, on a help request, it returns nothing and logs nothing; otherwise
  it logs a fatal message and returns 1. By \<open>finishInitialize_project\<close>, going on with a
  project stores it in the options. An empty default project counts as none.
\<close>

theorem C8_project_choice:
  assumes "workspace c = Some ws" and "truthy (cmd_target c)" and "\<not> multiTarget c"
    and "projectNamesWithTarget ws (orEmpty (cmd_target c)) = names" and "names \<noteq> []"
    and "resolveProject h c ws (orEmpty (cmd_target c)) names options s
           = (Next (projectName, options'), s')"
    and "\<not> truthy projectName"
  shows "initialize h c options s =
           (if truthy (defaultProject ws) \<and> orEmpty (defaultProject ws) \<in> set names then
              finishInitialize h ws (orEmpty (cmd_target c)) names
                (Some (orEmpty (defaultProject ws))) options' s'
            else if length names = 1 then
              finishInitialize h ws (orEmpty (cmd_target c)) names (Some (hd names)) options' s'
            else if helpRequested options' then (Inr None, options', s')
            else
              (Inr (Some 1), options',
               logTo Fatal (if truthy (missingTargetError c) then orEmpty (missingTargetError c)
                            else ''Cannot determine project or target for command.'') s'))"
proof -
  have np: "\<not> truthy (project options)"
  proof
    assume "truthy (project options)"
    then have "resolveProject h c ws (orEmpty (cmd_target c)) names options s
                 = (Next (project options, options), s)"
      by (simp add: resolveProject_skipped)
    with assms(6) have "projectName = project options" by auto
    with assms(7) \<open>truthy (project options)\<close> show False by simp
  qed
  have init: "initialize h c options s =
          chooseProject h c ws (orEmpty (cmd_target c)) names projectName options' s'"
    using initialize_resolve [OF assms(1,2) np, of h s] assms(4,5,6) by simp
  have single: "length names = 1 \<Longrightarrow> truthy (defaultProject ws) \<Longrightarrow>
      orEmpty (defaultProject ws) \<in> set names \<Longrightarrow> Some (names ! 0) = defaultProject ws"
    by (cases names) (auto simp: truthy_def orEmpty_def split: option.splits)
  have dflt: "truthy (defaultProject ws) \<Longrightarrow>
      Some (orEmpty (defaultProject ws)) = defaultProject ws"
    by (auto simp: truthy_def orEmpty_def split: option.splits)
  have hd0: "length names = 1 \<Longrightarrow> names ! 0 = hd names"
    by (cases names) auto
  show ?thesis
    unfolding init chooseProject_def Let_def
    using assms(3,7) single dflt hd0 by auto
qed

text \<open>
  C8 in the scenario. With \<^verbatim>\<open>lib\<close> as the default project and the one token
  \<^verbatim>\<open>--watch=false\<close>, the disambiguation is entered and narrows the candidates to none: the
  options end with the project \<^verbatim>\<open>lib\<close>. With no default project, two candidates and no
  leftovers, the method logs the fatal message and returns 1.
\<close>

theorem C8_witness:
  "project (fst (snd (initialize scenarioHost defaultLibCommand
                        (optionsWith [''--watch=false'']) emptyState)))
     = Some ''lib''
   \<and> initialize scenarioHost testCommand (optionsWith []) emptyState =
       (Inr (Some 1), optionsWith [],
        \<lparr>logger = [(Fatal, ''Cannot determine project or target for command.'')],
         descriptionOptions = [], world = []\<rparr>)"
proof -
  let ?ws = "appLibWorkspace\<lparr>defaultProject := Some ''lib''\<rparr>"
  have 1: "workspace defaultLibCommand = Some ?ws" by (simp add: defaultLibCommand_def)
  have 2: "truthy (cmd_target defaultLibCommand)"
    by (simp add: defaultLibCommand_def testCommand_def truthy_def)
  have 3: "\<not> multiTarget defaultLibCommand" by (simp add: defaultLibCommand_def testCommand_def)
  have 4: "projectNamesWithTarget ?ws (orEmpty (cmd_target defaultLibCommand)) = [''app'', ''lib'']"
    by code_simp
  have 5: "[''app'', ''lib''] \<noteq> []" by simp
  have 6: "resolveProject scenarioHost defaultLibCommand ?ws
             (orEmpty (cmd_target defaultLibCommand)) [''app'', ''lib'']
             (optionsWith [''--watch=false'']) emptyState
           = (Next (None, optionsWith [''--watch=false'']), emptyState)"
    by code_simp
  have 7: "\<not> truthy None" by (simp add: truthy_def)
  have a: "workspace testCommand = Some appLibWorkspace" by (simp add: testCommand_def)
  have b: "truthy (cmd_target testCommand)" by (simp add: testCommand_def truthy_def)
  have c: "\<not> multiTarget testCommand" by (simp add: testCommand_def)
  have d: "projectNamesWithTarget appLibWorkspace (orEmpty (cmd_target testCommand))
             = [''app'', ''lib'']"
    by code_simp
  have e: "resolveProject scenarioHost testCommand appLibWorkspace
             (orEmpty (cmd_target testCommand)) [''app'', ''lib''] (optionsWith []) emptyState
           = (Next (None, optionsWith []), emptyState)"
    by (simp add: resolveProject_def optionsWith_def)
  have first:
    "project (fst (snd (initialize scenarioHost defaultLibCommand
                          (optionsWith [''--watch=false'']) emptyState)))
       = Some ''lib''"
    using C8_project_choice [OF 1 2 3 4 5 6 7]
    by (simp add: truthy_def orEmpty_def finishInitialize_project)
  have second: "initialize scenarioHost testCommand (optionsWith []) emptyState =
       (Inr (Some 1), optionsWith [],
        \<lparr>logger = [(Fatal, ''Cannot determine project or target for command.'')],
         descriptionOptions = [], world = []\<rparr>)"
    using C8_project_choice [OF a b c d 5 e 7]
    by (simp add: truthy_def appLibWorkspace_def testCommand_def optionsWith_def logTo_def
          emptyState_def)
  from first second show ?thesis by simp
qed

text \<open>
  C10: where the project option is truthy, or the options have no leftovers or an empty
  list of them, the block of lines 115-193 is skipped: it leaves the project name, the
  options and the state as they are; the leftovers in the options after the method are
  the ones before it, however the method ends; and the method does the same whatever the
  parser is, which it never calls. \<^verbatim>\<open>runArchitectTarget\<close> reads its \<^verbatim>\<open>extra\<close> tokens from
  these options.
\<close>

theorem C10_disambiguation_not_entered:
  assumes "truthy (project options) \<or> leftovers options = None \<or> leftovers options = Some []"
  shows "resolveProject h c ws tgt names options s = (Next (project options, options), s)
       \<and> leftovers (fst (snd (initialize h c options s))) = leftovers options
       \<and> initialize (h\<lparr>parseArguments := q\<rparr>) c options s = initialize h c options s"
proof -
  note skip = resolveProject_skipped [OF assms]
  have "leftovers (fst (snd (initialize h c options s))) = leftovers options"
    by (simp add: initialize_def Let_def skip chooseProject_leftovers
          split: option.splits prod.splits)
  moreover have "initialize (h\<lparr>parseArguments := q\<rparr>) c options s = initialize h c options s"
    by (simp add: initialize_def Let_def skip chooseProject_parser
          split: option.splits prod.splits)
  ultimately show ?thesis using skip by simp
qed

text \<open>
  C10 in the scenario, with the project \<^verbatim>\<open>lib\<close> given as an option: the tokens \<^verbatim>\<open>lib\<close> and
  \<^verbatim>\<open>--watch=false\<close> are still the leftovers after the method, and a parser that binds
  nothing gives the same result.
\<close>

theorem C10_witness:
  "truthy (project ((optionsWith [''lib'', ''--watch=false''])\<lparr>project := Some ''lib''\<rparr>))
   \<and> leftovers (fst (snd (initialize scenarioHost testCommand
                 ((optionsWith [''lib'', ''--watch=false''])\<lparr>project := Some ''lib''\<rparr>)
                 emptyState)))
       = Some [''lib'', ''--watch=false'']
   \<and> initialize (scenarioHost\<lparr>parseArguments := (\<lambda>toks defs. ([], None))\<rparr>) testCommand
         ((optionsWith [''lib'', ''--watch=false''])\<lparr>project := Some ''lib''\<rparr>) emptyState
       = initialize scenarioHost testCommand
         ((optionsWith [''lib'', ''--watch=false''])\<lparr>project := Some ''lib''\<rparr>) emptyState"
proof -
  let ?opts = "(optionsWith [''lib'', ''--watch=false''])\<lparr>project := Some ''lib''\<rparr>"
  have t: "truthy (project ?opts)" by (simp add: truthy_def)
  then have "truthy (project ?opts) \<or> leftovers ?opts = None \<or> leftovers ?opts = Some []"
    by simp
  from C10_disambiguation_not_entered [OF this, of scenarioHost testCommand appLibWorkspace
         "''test''" "[''app'', ''lib'']" emptyState "\<lambda>toks defs. ([], None)"] t
  show ?thesis by (simp add: optionsWith_def)
qed

section \<open>Running the target on every candidate\<close>

lemma runSingleTarget_code:
  "runSingleTarget h c tg extra s = (Inr r, s') \<Longrightarrow> r = 0 \<or> r = 1"
  by (auto simp: runSingleTarget_def builderNotResolved_def Let_def
        split: sum.splits exn.splits option.splits prod.splits if_splits)

lemma sequentialRuns_projects: "map fst (sequentialRuns h c targetSpec extra ps s) = ps"
  by (induction ps arbitrary: s) (auto simp: Let_def)

lemma or_exit_codes:
  "(a = 0 \<or> a = 1) \<Longrightarrow> (b = 0 \<or> b = 1) \<Longrightarrow>
   (a::int) OR b = (if a = 1 \<or> b = 1 then 1 else 0)"
  by auto

text \<open>A run that throws ends the loop: the projects after it are not run.\<close>

lemma runEachProject_throw:
  "runSingleTarget h c (targetSpec\<lparr>tproject := p\<rparr>) extra s = (Inl e, s') \<Longrightarrow>
   runEachProject h c targetSpec extra (p # ps) result s = (Inl e, s')"
  by simp

lemma runEachProject_sequential:
  assumes "\<forall>r \<in> set (sequentialRuns h c targetSpec extra ps s). exitCode (fst (snd r)) \<noteq> None"
    and "result = 0 \<or> result = 1"
  shows "runEachProject h c targetSpec extra ps result s =
           (Inr (if result = 1 \<or> (\<exists>r \<in> set (sequentialRuns h c targetSpec extra ps s).
                                    fst (snd r) = Inr 1) then 1 else 0),
            last (s # map (\<lambda>r. snd (snd r)) (sequentialRuns h c targetSpec extra ps s)))"
  using assms
proof (induction ps arbitrary: result s)
  case Nil
  then show ?case by auto
next
  case (Cons p ps)
  obtain o1 s1 where r1: "runSingleTarget h c (targetSpec\<lparr>tproject := p\<rparr>) extra s = (o1, s1)"
    by (cases "runSingleTarget h c (targetSpec\<lparr>tproject := p\<rparr>) extra s")
  from Cons.prems(1) r1 obtain n where o1: "o1 = Inr n"
    by (cases o1) (auto simp: exitCode_def Let_def)
  have n: "n = 0 \<or> n = 1" using runSingleTarget_code r1 o1 by blast
  have rest:
    "\<forall>r \<in> set (sequentialRuns h c targetSpec extra ps s1). exitCode (fst (snd r)) \<noteq> None"
    using Cons.prems(1) r1 by (simp add: Let_def)
  have res: "result OR n = 0 \<or> result OR n = 1"
    using or_exit_codes [OF Cons.prems(2) n] by auto
  have step: "runEachProject h c targetSpec extra (p # ps) result s =
              runEachProject h c targetSpec extra ps (result OR n) s1"
    using r1 o1 by simp
  show ?case
    unfolding step Cons.IH [OF rest res]
    using r1 o1 or_exit_codes [OF Cons.prems(2) n] by (auto simp: Let_def)
qed

lemma getProjectNamesByTarget_multi:
  "workspace c = Some ws \<Longrightarrow> multiTarget c \<Longrightarrow>
   getProjectNamesByTarget c targetName = Inr (projectNamesWithTarget ws targetName)"
  by (simp add: getProjectNamesByTarget_def)

text \<open>
  C5: for a multi-target command (with a workspace and a target) and options without a
  project and without a target option, let \<open>runs\<close> be the runs of the target on the
  candidates, in the workspace's order, each starting in the state in which the one before
  it ended. If every run returns an exit code, then there is one run per candidate, in
  candidate order, whatever the runs before it returned; the result is 1 if some run
  returned 1 and 0 otherwise; and the final state is the one the last run ended in.
\<close>

theorem C5_multi_target_sequential:
  assumes "workspace c = Some ws" and "multiTarget c" and "truthy (cmd_target c)"
    and "\<not> truthy (project options)" and "\<not> truthy (target options)"
    and "runs = sequentialRuns h c (makeTargetSpecifier c options)
                  (case leftovers options of None \<Rightarrow> [] | Some l \<Rightarrow> l)
                  (projectNamesWithTarget ws (orEmpty (cmd_target c))) s"
    and "\<forall>r \<in> set runs. exitCode (fst (snd r)) \<noteq> None"
  shows "map fst runs = projectNamesWithTarget ws (orEmpty (cmd_target c))
       \<and> runArchitectTarget h c options s =
           (Inr (if \<exists>r \<in> set runs. fst (snd r) = Inr 1 then 1 else 0),
            last (s # map (\<lambda>r. snd (snd r)) runs))"
proof -
  have spec: "tproject (makeTargetSpecifier c options) = []"
    using assms(4,5)
    by (auto simp: makeTargetSpecifier_def truthy_def orEmpty_def split: option.splits)
  note names = getProjectNamesByTarget_multi [OF assms(1,2)]
  have "runTargets h c options s =
          (Inr (if \<exists>r \<in> set runs. fst (snd r) = Inr 1 then 1 else 0),
           last (s # map (\<lambda>r. snd (snd r)) runs))"
    using runEachProject_sequential [OF assms(7) [unfolded assms(6)], of 0] spec assms(3)
    by (simp add: runTargets_def Let_def names assms(6))
  then show ?thesis
    by (simp add: runArchitectTarget_def assms(6) sequentialRuns_projects)
qed

text \<open>
  C5 on the candidates \<^verbatim>\<open>A\<close>, \<^verbatim>\<open>B\<close>, \<^verbatim>\<open>C\<close>, where the run of \<^verbatim>\<open>B\<close> fails and the other two
  succeed: the builder runtime was given the three runs, in this order, and the result
  is 1.
\<close>

theorem C5_witness:
  "runArchitectTarget scenarioHost lintCommand (optionsWith []) emptyState =
     (Inr 1,
      \<lparr>logger = [], descriptionOptions = [],
       world = [(''A'', [], None), (''B'', [], None), (''C'', [], None)]\<rparr>)"
proof -
  let ?runs =
    "[(''A'', Inr 0, \<lparr>logger = [], descriptionOptions = [],
                      world = [(''A'', [], None)]\<rparr>),
      (''B'', Inr 1, \<lparr>logger = [], descriptionOptions = [],
                      world = [(''A'', [], None), (''B'', [], None)]\<rparr>),
      (''C'', Inr 0, \<lparr>logger = [], descriptionOptions = [],
                      world = [(''A'', [], None), (''B'', [], None), (''C'', [], None)]\<rparr>)]
     :: (string \<times> (unit exn + int) \<times> (string, scenarioWorld) State) list"
  have 1: "workspace lintCommand = Some abcWorkspace" by (simp add: lintCommand_def)
  have 2: "multiTarget lintCommand" by (simp add: lintCommand_def)
  have 3: "truthy (cmd_target lintCommand)" by (simp add: lintCommand_def truthy_def)
  have 4: "\<not> truthy (project (optionsWith []))" by (simp add: optionsWith_def truthy_def)
  have 5: "\<not> truthy (target (optionsWith []))" by (simp add: optionsWith_def truthy_def)
  have 6: "?runs = sequentialRuns scenarioHost lintCommand
                     (makeTargetSpecifier lintCommand (optionsWith []))
                     (case leftovers (optionsWith []) of None \<Rightarrow> [] | Some l \<Rightarrow> l)
                     (projectNamesWithTarget abcWorkspace (orEmpty (cmd_target lintCommand)))
                     emptyState"
    by code_simp
  have 7: "\<forall>r \<in> set ?runs. exitCode (fst (snd r)) \<noteq> None"
    by (simp add: exitCode_def)
  show ?thesis
    using C5_multi_target_sequential [OF 1 2 3 4 5 6 7] by simp
qed

section \<open>Unknown options\<close>

lemma split_on_first:
  "(case split_on c s of [] \<Rightarrow> [] | w # ws \<Rightarrow> w) = takeWhile (\<lambda>ch. ch \<noteq> c) s"
  by (induction s) (auto split: list.splits)

lemma unknownOption_text:
  "unknownOption additional =
     (Fatal, ''Unknown option: '' @ quoted (takeWhile (\<lambda>ch. ch \<noteq> CHR ''='') additional))"
  by (simp add: unknownOption_def split_on_first)

text \<open>
  C7, as stated, fails: the leftover \<^verbatim>\<open>--f=1\<close> names the one-character option \<^verbatim>\<open>f\<close>, and the
  run reports it with the two dashes of the token, \<^verbatim>\<open>--f\<close>, where a single dash for a
  one-character name would give \<^verbatim>\<open>-f\<close>.
\<close>

theorem C7_counterexample:
  "runSingleTarget scenarioHost testCommand
     \<lparr>tproject = ''app'', ttarget = ''test'', tconfiguration = Some []\<rparr> [''--f=1''] emptyState
   = (Inr 1, \<lparr>logger = [(Fatal, ''Unknown option: '' @ quoted ''--f'')],
              descriptionOptions = [], world = []\<rparr>)
   \<and> dashes ''f'' @ ''f'' = ''-f''"
  by code_simp

text \<open>
  C7, amended: when the builder of a single target run resolves, the parse of the target
  options has a leftover list, and the builder's schema does not allow additional
  properties, the run returns 1 without scheduling the builder, after reporting every
  leftover token, in order, as an \<^verbatim>\<open>Unknown option\<close> fatal message; the reported form is
  the token's own text up to its first \<^verbatim>\<open>=\<close>, with the dashes the token has.
\<close>

theorem C7_unknown_leftovers_rejected:
  assumes "getBuilderNameForTarget h tg = Inr builderConf"
    and "resolveBuilder h builderConf = Inr builderDesc"
    and "snd (parseArguments h targetOptions (optionDefs builderDesc)) = Some additionals"
    and "\<not> additionalProperties builderDesc"
  shows "runSingleTarget h c tg targetOptions s =
           (Inr 1,
            s\<lparr>logger := logger s @ parseArgumentsLog h targetOptions (optionDefs builderDesc)
                 @ map (\<lambda>additional.
                          (Fatal, ''Unknown option: ''
                                  @ quoted (takeWhile (\<lambda>ch. ch \<noteq> CHR ''='') additional)))
                     additionals\<rparr>)"
  using assms by (simp add: runSingleTarget_def Let_def unknownOption_text)

text \<open>
  C7 in the scenario of the spec: the leftover \<^verbatim>\<open>--foo=1\<close> against a schema without
  additional properties gives the fatal message \<^verbatim>\<open>Unknown option: '--foo'\<close> and exit code 1.
\<close>

theorem C7_witness:
  "runSingleTarget scenarioHost testCommand
     \<lparr>tproject = ''app'', ttarget = ''test'', tconfiguration = Some []\<rparr> [''--foo=1''] emptyState
   = (Inr 1, \<lparr>logger = [(Fatal, ''Unknown option: '' @ quoted ''--foo'')],
              descriptionOptions = [], world = []\<rparr>)"
proof -
  let ?tg = "\<lparr>tproject = ''app'', ttarget = ''test'', tconfiguration = Some []\<rparr>"
  let ?desc = "\<lparr>optionDefs = [''watch''], additionalProperties = False\<rparr>"
  have 1: "getBuilderNameForTarget scenarioHost ?tg = Inr ''builder:app''"
    by (simp add: scenarioHost_def)
  have 2: "resolveBuilder scenarioHost ''builder:app'' = Inr ?desc"
    by (simp add: scenarioHost_def)
  have 3: "snd (parseArguments scenarioHost [''--foo=1''] (optionDefs ?desc)) = Some [''--foo=1'']"
    by code_simp
  have 4: "\<not> additionalProperties ?desc" by simp
  have 5: "parseArgumentsLog scenarioHost [''--foo=1''] [''watch''] = []"
    by (simp add: scenarioHost_def)
  show ?thesis
    using C7_unknown_leftovers_rejected [OF 1 2 3 4, of testCommand emptyState]
    by (simp add: 5 emptyState_def)
qed

section \<open>Schema validation failures\<close>

lemma filterSchemaErrors_result:
  assumes "\<forall>e \<in> set errs. keyword e = ''additionalProperties'' \<and> additionalProperty e = None
             \<longrightarrow> ''undefined'' \<notin> set (keys options)"
  shows "filterSchemaErrors options errs newErrors s =
           (Inr (newErrors @ filter (\<lambda>e. \<not> rewritten options e) errs),
            s\<lparr>logger := logger s
                 @ map (\<lambda>e. (Fatal, ''Unknown option: ''
                                    @ quoted (dashes (orEmpty (additionalProperty e))
                                              @ orEmpty (additionalProperty e))))
                     (filter (rewritten options) errs)\<rparr>)"
  using assms
proof (induction errs arbitrary: newErrors s)
  case Nil
  then show ?case by simp
next
  case (Cons e errs)
  from Cons.prems have rest:
    "\<forall>e \<in> set errs. keyword e = ''additionalProperties'' \<and> additionalProperty e = None
       \<longrightarrow> ''undefined'' \<notin> set (keys options)"
    by simp
  show ?case
  proof (cases "rewritten options e")
    case True
    then obtain k where k: "keyword e = ''additionalProperties''" "additionalProperty e = Some k"
      "k \<in> set (keys options)"
      by (auto simp: rewritten_def split: option.splits)
    show ?thesis
      using True k by (simp add: Cons.IH [OF rest] logTo_def orEmpty_def)
  next
    case False
    then show ?thesis
      using Cons.prems by (auto simp: Cons.IH [OF rest] rewritten_def split: option.splits)
  qed
qed

text \<open>
  C9: when the runs of the target throw a schema validation exception, every error whose
  keyword is \<^verbatim>\<open>additionalProperties\<close> and whose property is a key of the command options is
  reported, in order, as an \<^verbatim>\<open>Unknown option\<close> fatal message, the property between single
  quotes with one dash before it when it is one character long and two dashes otherwise,
  and is left out of the errors that remain; the remaining errors, if there are any, are
  reported in one error message made of them as they are, in order; and the command
  returns 1. (An error of that keyword without a property name is assumed not to meet an
  options object with the key \<^verbatim>\<open>undefined\<close>, where the code would throw a \<^verbatim>\<open>TypeError\<close>.)
\<close>

theorem C9_schema_errors_translated:
  assumes "runTargets h c options s = (Inl (SchemaValidationException errs), s')"
    and "\<forall>e \<in> set errs. keyword e = ''additionalProperties'' \<and> additionalProperty e = None
           \<longrightarrow> ''undefined'' \<notin> set (keys options)"
  shows "runArchitectTarget h c options s =
           (Inr 1,
            s'\<lparr>logger := logger s'
                 @ map (\<lambda>e. (Fatal,
                              ''Unknown option: '' @ [CHR 0x27]
                              @ (if length (orEmpty (additionalProperty e)) = 1 then ''-''
                                 else ''--'')
                              @ orEmpty (additionalProperty e) @ [CHR 0x27]))
                     (filter (rewritten options) errs)
                 @ (if filter (\<lambda>e. \<not> rewritten options e) errs = [] then []
                    else [(Error, validationMessage h
                                    (filter (\<lambda>e. \<not> rewritten options e) errs))])\<rparr>)"
proof -
  note filtered = filterSchemaErrors_result [OF assms(2)]
  show ?thesis
    using assms(1)
    by (simp add: runArchitectTarget_def filtered logTo_def dashes_def quoted_def)
qed

text \<open>
  C9 on a run that is rejected with four validation errors: the additional properties
  \<^verbatim>\<open>f\<close> and \<^verbatim>\<open>foo\<close>, which are keys of the options, the additional property \<^verbatim>\<open>bar\<close>, which is
  not, and a missing required property. The first two are reported as the unknown options
  \<^verbatim>\<open>-f\<close>, with one dash, and \<^verbatim>\<open>--foo\<close>, with two; the other two are reported as they are;
  and the command returns 1.
\<close>

theorem C9_witness:
  "runArchitectTarget rejectingHost testCommand
     ((optionsWith [])\<lparr>project := Some ''app'', keys := [''--'', ''project'', ''foo'', ''f'']\<rparr>)
     emptyState =
     (Inr 1,
      \<lparr>logger = [(Fatal, ''Unknown option: '' @ [CHR 0x27] @ ''-f'' @ [CHR 0x27]),
                  (Fatal, ''Unknown option: '' @ [CHR 0x27] @ ''--foo'' @ [CHR 0x27]),
                  (Error, ''must NOT have additional property bar; ''
                          @ ''must have required property main'')],
       descriptionOptions = [], world = []\<rparr>)"
proof -
  let ?opts =
    "(optionsWith [])\<lparr>project := Some ''app'', keys := [''--'', ''project'', ''foo'', ''f'']\<rparr>"
  let ?errs = "[\<lparr>keyword = ''additionalProperties'', additionalProperty = Some ''f'',
                 message = ''must NOT have additional property f''\<rparr>,
                \<lparr>keyword = ''additionalProperties'', additionalProperty = Some ''bar'',
                 message = ''must NOT have additional property bar''\<rparr>,
                \<lparr>keyword = ''additionalProperties'', additionalProperty = Some ''foo'',
                 message = ''must NOT have additional property foo''\<rparr>,
                \<lparr>keyword = ''required'', additionalProperty = None,
                 message = ''must have required property main''\<rparr>]"
  have 1: "runTargets rejectingHost testCommand ?opts emptyState
             = (Inl (SchemaValidationException ?errs), emptyState)"
    by code_simp
  have 2: "\<forall>e \<in> set ?errs. keyword e = ''additionalProperties'' \<and> additionalProperty e = None
             \<longrightarrow> ''undefined'' \<notin> set (keys ?opts)"
    by simp
  have 3: "validationMessage rejectingHost es = join ''; '' (map message es)" for es
    by (simp add: rejectingHost_def scenarioHost_def)
  show ?thesis
    using C9_schema_errors_translated [OF 1 2]
    by (simp add: rewritten_def optionsWith_def orEmpty_def emptyState_def 3)
qed

end
